theory Spec2Isabelle
  imports
    Main
    "HOL-Library.Char_ord"
    "HOL-Library.List_Lexorder"
    "HOL-Library.Log_Nat"
    "HOL-Library.AList"
begin

section \<open>The two services of l02: Edge (app1) and Orchestrator (app2)\<close>

text \<open>
  The repository holds two HTTP services. \<^verbatim>\<open>app1/main.go\<close> (the Edge) takes a postal
  code (CEP) in a JSON body, validates it and forwards it to \<^verbatim>\<open>app2/main.go\<close> (the
  Orchestrator), which validates it again, resolves it to a city with the package
  \<^verbatim>\<open>viacep\<close>, resolves the city to a temperature with the package
  \<^verbatim>\<open>weatherapi\<close> and answers with the temperature in three scales.

  Go strings are byte strings: a \<^typ>\<open>string\<close> here is the list of the bytes of the Go
  string, so a letter outside ASCII is written as the bytes of its UTF-8 encoding.
  Both programs are \<^verbatim>\<open>package main\<close>; names that occur in both carry the prefix
  \<open>app1_\<close> or \<open>app2_\<close>, and names of the two client packages, where they coincide,
  carry \<open>viacep_\<close> or \<open>weatherapi_\<close>.
\<close>

subsection \<open>Bytes and runes (package unicode/utf8)\<close>

text \<open>
  Where the library reads a string as text, it reads UTF-8. \<open>utf8_width s\<close> is the size
  that \<^verbatim>\<open>utf8.DecodeRuneInString\<close> gives for the head of \<open>s\<close> when a well-formed
  encoding starts there, and 0 when none does (Go then returns \<^verbatim>\<open>RuneError\<close> with
  the size 1). \<open>utf8_size\<close> is the library's table \<^verbatim>\<open>first\<close>, \<open>accept_lo\<close> and
  \<open>accept_hi\<close> are its \<^verbatim>\<open>acceptRanges\<close> for the second byte.
\<close>

definition between :: "char \<Rightarrow> char \<Rightarrow> char \<Rightarrow> bool" where
  \<comment> \<open>the byte \<open>c\<close> lies in the range from \<open>lo\<close> to \<open>hi\<close>\<close>
  "between lo hi c = (lo \<le> c \<and> c \<le> hi)"

definition utf8_size :: "char \<Rightarrow> nat" where
  \<comment> \<open>the size of the encoding that the byte \<open>b0\<close> starts; 0 when it starts none\<close>
  "utf8_size b0 =
     (if b0 < CHR 0x80 then 1
      else if between CHR 0xC2 CHR 0xDF b0 then 2
      else if between CHR 0xE0 CHR 0xEF b0 then 3
      else if between CHR 0xF0 CHR 0xF4 b0 then 4
      else 0)"

definition accept_lo :: "char \<Rightarrow> char" where
  "accept_lo b0 =
     (if b0 = CHR 0xE0 then CHR 0xA0 else if b0 = CHR 0xF0 then CHR 0x90 else CHR 0x80)"

definition accept_hi :: "char \<Rightarrow> char" where
  "accept_hi b0 =
     (if b0 = CHR 0xED then CHR 0x9F else if b0 = CHR 0xF4 then CHR 0x8F else CHR 0xBF)"

definition utf8_width :: "string \<Rightarrow> nat" where
  "utf8_width s =
     (case s of
        [] \<Rightarrow> 0
      | b0 # bs \<Rightarrow>
          (let sz = utf8_size b0
           in if sz \<le> 1 then sz
              else if length bs < sz - 1 then 0
              else if \<not> between (accept_lo b0) (accept_hi b0) (bs ! 0) then 0
              else if sz \<le> 2 then 2
              else if \<not> between CHR 0x80 CHR 0xBF (bs ! 1) then 0
              else if sz \<le> 3 then 3
              else if \<not> between CHR 0x80 CHR 0xBF (bs ! 2) then 0
              else 4))"

definition rune :: "string \<Rightarrow> nat" where
  \<comment> \<open>the code point of the well-formed encoding at the head of \<open>s\<close>\<close>
  "rune s =
     (let b = (\<lambda>i. of_char (s ! i) :: nat)
      in if utf8_width s = 2 then b 0 mod 32 * 64 + b 1 mod 64
         else if utf8_width s = 3 then b 0 mod 16 * 4096 + b 1 mod 64 * 64 + b 2 mod 64
         else if utf8_width s = 4
           then b 0 mod 8 * 262144 + b 1 mod 64 * 4096 + b 2 mod 64 * 64 + b 3 mod 64
         else b 0)"

text \<open>
  \<^verbatim>\<open>encoding/json\<close> writes and reads strings as UTF-8 and replaces every byte that is
  not part of a well-formed encoding by U+FFFD (the bytes EF BF BD), byte by byte.
\<close>

fun coerce_utf8 :: "string \<Rightarrow> string" where
  "coerce_utf8 [] = []"
| "coerce_utf8 (c # cs) =
     (if utf8_width (c # cs) = 0 then [CHR 0xEF, CHR 0xBF, CHR 0xBD]
      else take (utf8_width (c # cs)) (c # cs))
     @ coerce_utf8 (drop (utf8_width (c # cs) - 1) cs)"

subsection \<open>Quoted strings (package strconv)\<close>

text \<open>
  \<^verbatim>\<open>strconv.Quote\<close>, which the verb \<^verbatim>\<open>%q\<close> prints a string with: the string between
  double quotes, a double quote and a backslash behind a backslash, a byte that is no
  UTF-8 as \<^verbatim>\<open>\xNN\<close>, and a rune that is not printable as its escape. A rune up to
  U+00FF is printable as \<^verbatim>\<open>strconv.IsPrint\<close> says; for a rune beyond, the library looks
  into its tables of Unicode, which are not reproduced: \<open>IsPrint\<close> holds of it here.
\<close>

definition lowerhex :: "nat \<Rightarrow> char" where
  "lowerhex n = ''0123456789abcdef'' ! (n mod 16)"

definition hex :: "nat \<Rightarrow> nat \<Rightarrow> string" where
  \<comment> \<open>the last \<open>n\<close> hexadecimal digits of \<open>v\<close>\<close>
  "hex n v = map (\<lambda>i. lowerhex (v div 16 ^ i)) (rev [0..<n])"

definition IsPrint :: "nat \<Rightarrow> bool" where
  "IsPrint r =
     (if r \<le> 0xFF then 0x20 \<le> r \<and> r \<le> 0x7E \<or> 0xA1 \<le> r \<and> r \<noteq> 0xAD else True)"

definition quote_rune :: "string \<Rightarrow> string" where
  \<comment> \<open>what \<^verbatim>\<open>Quote\<close> writes for the rune, or the stray byte, at the head of \<open>s\<close>\<close>
  "quote_rune s =
     (let b = hd s; r = rune s
      in if utf8_width s = 0 then [CHR 0x5C, CHR ''x''] @ hex 2 (of_char b)
         else if b = CHR 0x22 \<or> b = CHR 0x5C then [CHR 0x5C, b]
         else if IsPrint r then take (utf8_width s) s
         else if r = 0x07 then [CHR 0x5C, CHR ''a'']
         else if r = 0x08 then [CHR 0x5C, CHR ''b'']
         else if r = 0x0C then [CHR 0x5C, CHR ''f'']
         else if r = 0x0A then [CHR 0x5C, CHR ''n'']
         else if r = 0x0D then [CHR 0x5C, CHR ''r'']
         else if r = 0x09 then [CHR 0x5C, CHR ''t'']
         else if r = 0x0B then [CHR 0x5C, CHR ''v'']
         else if r < 0x20 \<or> r = 0x7F then [CHR 0x5C, CHR ''x''] @ hex 2 r
         else if r < 0x10000 then [CHR 0x5C, CHR ''u''] @ hex 4 r
         else [CHR 0x5C, CHR ''U''] @ hex 8 r)"

fun quote_runes :: "string \<Rightarrow> string" where
  "quote_runes [] = []"
| "quote_runes (c # cs) =
     quote_rune (c # cs) @ quote_runes (drop (utf8_width (c # cs) - 1) cs)"

definition Quote :: "string \<Rightarrow> string" where
  "Quote s = [CHR 0x22] @ quote_runes s @ [CHR 0x22]"

subsection \<open>Errors\<close>

text \<open>
  The four package-level error values of \<^verbatim>\<open>viacep\<close> and \<^verbatim>\<open>weatherapi\<close>, and the
  errors that the standard library hands back (\<^verbatim>\<open>net/http\<close>, \<^verbatim>\<open>net/url\<close>,
  \<^verbatim>\<open>encoding/json\<close>), which the programs only test against \<^verbatim>\<open>nil\<close>, print with
  \<^verbatim>\<open>%v\<close> or send with \<^verbatim>\<open>err.Error()\<close>: such an error is its text. The error that
  \<^verbatim>\<open>http.Client.Do\<close> returns is a \<^verbatim>\<open>*url.Error\<close>, with the fields \<^verbatim>\<open>Op\<close>,
  \<^verbatim>\<open>URL\<close> and \<^verbatim>\<open>Err\<close>; its text is
  \<^verbatim>\<open>fmt.Sprintf("%s %q: %s", e.Op, e.URL, e.Err)\<close>. Go compares error values by identity;
  the constructors are distinct, as the four variables are.
\<close>

datatype error =
    ErrCepNotFound
  | viacep_ErrInternal
  | ErrCityNotFound
  | weatherapi_ErrInternal
  | LibraryError string
  | url_Error string string error

fun Error :: "error \<Rightarrow> string" where
  "Error ErrCepNotFound = ''CEP n'' @ [CHR 0xC3, CHR 0xA3] @ ''o encontrado''"
| "Error viacep_ErrInternal = ''ocorreu um erro interno ao buscar o CEP''"
| "Error ErrCityNotFound = ''cidade n'' @ [CHR 0xC3, CHR 0xA3] @ ''o encontrada''"
| "Error weatherapi_ErrInternal = ''ocorreu um erro interno ao buscar o clima''"
| "Error (LibraryError msg) = msg"
| "Error (url_Error Op url Err) = Op @ '' '' @ Quote url @ '': '' @ Error Err"

text \<open>A nil pointer dereference: the one panic the handlers can reach.\<close>

datatype panic = NilDereference

subsection \<open>Regular expressions (package regexp)\<close>

text \<open>
  Both services compile \<^verbatim>\<open>regextCepPattern = `^[0-9]{5}-[0-9]{3}$`\<close> once and call
  \<^verbatim>\<open>cepRegex.MatchString\<close>. The expression between the anchors is a syntax tree
  here, \<^verbatim>\<open>x{n}\<close> is \<open>n\<close> copies of \<open>x\<close>, and matching is by derivatives. The
  pattern starts with \<^verbatim>\<open>^\<close> and ends with \<^verbatim>\<open>$\<close> (no flag \<^verbatim>\<open>m\<close>: beginning and end
  of the text), so \<^verbatim>\<open>MatchString\<close> holds when the whole string matches. The pattern
  is ASCII, so matching bytes is matching runes.
\<close>

datatype regexp =
    NoMatch
  | EmptyMatch
  | Literal char
  | CharClass char char
  | Alternate regexp regexp
  | Concat regexp regexp

primrec Repeat :: "regexp \<Rightarrow> nat \<Rightarrow> regexp" where
  "Repeat r 0 = EmptyMatch"
| "Repeat r (Suc n) = Concat r (Repeat r n)"

primrec nullable :: "regexp \<Rightarrow> bool" where
  "nullable NoMatch = False"
| "nullable EmptyMatch = True"
| "nullable (Literal c) = False"
| "nullable (CharClass lo hi) = False"
| "nullable (Alternate r s) = (nullable r \<or> nullable s)"
| "nullable (Concat r s) = (nullable r \<and> nullable s)"

primrec deriv :: "char \<Rightarrow> regexp \<Rightarrow> regexp" where
  "deriv c NoMatch = NoMatch"
| "deriv c EmptyMatch = NoMatch"
| "deriv c (Literal d) = (if c = d then EmptyMatch else NoMatch)"
| "deriv c (CharClass lo hi) = (if between lo hi c then EmptyMatch else NoMatch)"
| "deriv c (Alternate r s) = Alternate (deriv c r) (deriv c s)"
| "deriv c (Concat r s) =
     (if nullable r then Alternate (Concat (deriv c r) s) (deriv c s)
      else Concat (deriv c r) s)"

definition MatchString :: "regexp \<Rightarrow> string \<Rightarrow> bool" where
  "MatchString re s = nullable (foldl (\<lambda>r c. deriv c r) re s)"

definition cepRegex :: regexp where
  "cepRegex =
     Concat (Repeat (CharClass CHR ''0'' CHR ''9'') 5)
       (Concat (Literal CHR ''-'') (Repeat (CharClass CHR ''0'' CHR ''9'') 3))"

text \<open>The strings a regular expression denotes; the yardstick for \<^const>\<open>MatchString\<close>.\<close>

primrec lang :: "regexp \<Rightarrow> string set" where
  "lang NoMatch = {}"
| "lang EmptyMatch = {[]}"
| "lang (Literal c) = {[c]}"
| "lang (CharClass lo hi) = {[c] |c. between lo hi c}"
| "lang (Alternate r s) = lang r \<union> lang s"
| "lang (Concat r s) = {u @ v |u v. u \<in> lang r \<and> v \<in> lang s}"

text \<open>
  The postal code as the specification words it: \<^verbatim>\<open>NNNNN-NNN\<close>, five digits, a
  hyphen, three digits, and nothing else.
\<close>

definition is_digit :: "char \<Rightarrow> bool" where
  "is_digit c = between CHR ''0'' CHR ''9'' c"

definition is_PostalCode :: "string \<Rightarrow> bool" where
  "is_PostalCode s =
     (length s = 9 \<and> list_all is_digit (take 5 s) \<and> take 1 (drop 5 s) = ''-''
      \<and> list_all is_digit (drop 6 s))"

subsection \<open>float64\<close>

text \<open>
  A \<^verbatim>\<open>float64\<close> is an IEEE 754 binary64 value: a finite value is the rational it
  denotes (the sign of zero is not kept), and addition rounds the exact sum to the
  nearest binary64 value, ties to the even significand. \<^const>\<open>bitlen\<close> gives the
  position of the leading bit.
\<close>

datatype float64 = Finite rat | PosInf | NegInf | NaN

definition pow2 :: "int \<Rightarrow> rat" where
  "pow2 e = (if 0 \<le> e then 2 ^ nat e else 1 / 2 ^ nat (- e))"

definition ilog2 :: "rat \<Rightarrow> int" where
  \<comment> \<open>for \<open>x \<noteq> 0\<close>, the \<open>e\<close> with \<open>2 ^ e \<le> \<bar>x\<bar> < 2 ^ (e + 1)\<close>\<close>
  "ilog2 x =
     (let (p, q) = quotient_of \<bar>x\<bar>; e = bitlen p - bitlen q
      in if pow2 e \<le> \<bar>x\<bar> then e else e - 1)"

definition round_half_even :: "rat \<Rightarrow> int" where
  "round_half_even x =
     (let f = \<lfloor>x\<rfloor>; d = x - of_int f
      in if d < 1 / 2 then f else if 1 / 2 < d then f + 1 else if even f then f else f + 1)"

text \<open>
  Rounding \<open>x \<noteq> 0\<close> at the exponent \<open>e\<close>: the significand is \<open>x / 2 ^ e\<close> rounded to
  an integer \<open>m\<close>, and the result is \<open>m * 2 ^ e\<close>. At the exponent that \<open>f64_round\<close>
  chooses, \<open>\<bar>m\<bar> \<le> 2 ^ 53\<close>, so the result reaches \<open>2 ^ 1024\<close>, and overflows to an
  infinity, exactly when \<open>971 < e\<close>, or \<open>e = 971\<close> and \<open>\<bar>m\<bar> = 2 ^ 53\<close>.
\<close>

definition f64_pack :: "rat \<Rightarrow> int \<Rightarrow> int \<Rightarrow> float64" where
  "f64_pack x m e =
     (if 971 < e \<or> e = 971 \<and> 2 ^ 53 \<le> \<bar>m\<bar> then (if 0 < x then PosInf else NegInf)
      else Finite (of_int m * pow2 e))"

definition f64_round_at :: "rat \<Rightarrow> int \<Rightarrow> float64" where
  "f64_round_at x e = f64_pack x (round_half_even (x / pow2 e)) e"

definition f64_round :: "rat \<Rightarrow> float64" where
  \<comment> \<open>53 bits of significand, exponents down to the subnormal \<open>2 ^ - 1074\<close>\<close>
  "f64_round x =
     (if x = 0 then Finite 0 else f64_round_at x (max (ilog2 x - 52) (- 1074)))"

fun f64_add :: "float64 \<Rightarrow> float64 \<Rightarrow> float64" where
  "f64_add (Finite a) (Finite b) = f64_round (a + b)"
| "f64_add NaN _ = NaN"
| "f64_add _ NaN = NaN"
| "f64_add PosInf NegInf = NaN"
| "f64_add NegInf PosInf = NaN"
| "f64_add PosInf _ = PosInf"
| "f64_add _ PosInf = PosInf"
| "f64_add NegInf _ = NegInf"
| "f64_add _ NegInf = NegInf"

subsection \<open>JSON documents (package encoding/json)\<close>

text \<open>
  A JSON text is modelled by the value it denotes: a number by the \<^verbatim>\<open>float64\<close> its
  literal rounds to (every numeric field in this repository is a \<^verbatim>\<open>float64\<close>; a
  literal beyond the range rounds to an infinity, which \<^verbatim>\<open>Decode\<close> refuses), a string
  by its bytes, an object by its members in the order of the text. Printing a document
  and scanning the text are the library's; the repository's part is which members a
  struct reads and writes, under which names.
\<close>

datatype json =
    JNull
  | JBool bool
  | JNumber float64
  | JString string
  | JArray "json list"
  | JObject "(string \<times> json) list"

fun json_kind :: "json \<Rightarrow> string" where
  "json_kind JNull = ''null''"
| "json_kind (JBool _) = ''bool''"
| "json_kind (JNumber _) = ''number''"
| "json_kind (JString _) = ''string''"
| "json_kind (JArray _) = ''array''"
| "json_kind (JObject _) = ''object''"

definition UnmarshalTypeError :: "json \<Rightarrow> string \<Rightarrow> error" where
  "UnmarshalTypeError v field =
     LibraryError (''json: cannot unmarshal '' @ json_kind v @ '' into Go struct field '' @ field)"

text \<open>
  \<^verbatim>\<open>Decode\<close> finds the field of a member by its exact name or else by the name
  folded in case: ASCII letters to upper case, and the two letters outside ASCII whose
  case folding is an ASCII letter, the Kelvin sign (U+212A, bytes E2 84 AA) and the long
  s (U+017F, bytes C5 BF). The field names of every struct here are ASCII and distinct
  after folding, so a member belongs to the field whose folded name equals its own.
\<close>

definition fold_width :: "char \<Rightarrow> string \<Rightarrow> nat" where
  \<comment> \<open>how many bytes follow the first byte \<open>c\<close> of the letter at the head of \<open>c # cs\<close>:
      2 for the Kelvin sign, 1 for the long s, 0 for any other byte\<close>
  "fold_width c cs =
     (if c = CHR 0xE2 \<and> take 2 cs = [CHR 0x84, CHR 0xAA] then 2
      else if c = CHR 0xC5 \<and> take 1 cs = [CHR 0xBF] then 1
      else 0)"

definition fold_byte :: "char \<Rightarrow> string \<Rightarrow> char" where
  "fold_byte c cs =
     (if fold_width c cs = 2 then CHR ''K''
      else if fold_width c cs = 1 then CHR ''S''
      else if between CHR ''a'' CHR ''z'' c then char_of (of_char c - (32::nat))
      else c)"

fun foldName :: "string \<Rightarrow> string" where
  "foldName [] = []"
| "foldName (c # cs) = fold_byte c cs # foldName (drop (fold_width c cs) cs)"

text \<open>
  Decoding one value into a field that holds \<open>cur\<close>: \<^verbatim>\<open>null\<close> leaves the field as it
  is, a value of the wrong kind is a type error and leaves the field as it is. A string
  is coerced to well-formed UTF-8.
\<close>

fun decode_string :: "string \<Rightarrow> json \<Rightarrow> string \<Rightarrow> error option \<times> string" where
  "decode_string field JNull cur = (None, cur)"
| "decode_string field (JString s) cur = (None, coerce_utf8 s)"
| "decode_string field v cur = (Some (UnmarshalTypeError v field), cur)"

fun decode_bool :: "string \<Rightarrow> json \<Rightarrow> bool \<Rightarrow> error option \<times> bool" where
  "decode_bool field JNull cur = (None, cur)"
| "decode_bool field (JBool b) cur = (None, b)"
| "decode_bool field v cur = (Some (UnmarshalTypeError v field), cur)"

fun decode_float64 :: "string \<Rightarrow> json \<Rightarrow> float64 \<Rightarrow> error option \<times> float64" where
  "decode_float64 field JNull cur = (None, cur)"
| "decode_float64 field (JNumber (Finite x)) cur = (None, Finite x)"
| "decode_float64 field v cur = (Some (UnmarshalTypeError v field), cur)"

text \<open>
  The members of an object are decoded in order; the first error is kept and decoding
  goes on. \<open>set_field\<close> decodes one member into the struct.
\<close>

fun decode_members ::
  "(string \<Rightarrow> json \<Rightarrow> 'a \<Rightarrow> error option \<times> 'a) \<Rightarrow> (string \<times> json) list \<Rightarrow>
   error option \<times> 'a \<Rightarrow> error option \<times> 'a" where
  "decode_members set_field [] st = st"
| "decode_members set_field ((k, v) # kvs) (err, x) =
     (let (e, x') = set_field k v x
      in decode_members set_field kvs (case err of None \<Rightarrow> e | Some _ \<Rightarrow> err, x'))"

fun decode_struct ::
  "string \<Rightarrow> (string \<Rightarrow> json \<Rightarrow> 'a \<Rightarrow> error option \<times> 'a) \<Rightarrow> json \<Rightarrow> 'a \<Rightarrow> error option \<times> 'a" where
  "decode_struct name set_field JNull x = (None, x)"
| "decode_struct name set_field (JObject kvs) x = decode_members set_field kvs (None, x)"
| "decode_struct name set_field v x = (Some (UnmarshalTypeError v name), x)"

text \<open>
  \<^verbatim>\<open>json.NewDecoder(body).Decode(&x)\<close>: a body is what the scanner makes of it, the
  first JSON value of the stream or the scanner's error (a syntax error, or the end of
  an empty stream). \<open>zero\<close> is the zero value the program declared \<open>x\<close> with.
\<close>

type_synonym body = "error + json"

definition Decode ::
  "string \<Rightarrow> (string \<Rightarrow> json \<Rightarrow> 'a \<Rightarrow> error option \<times> 'a) \<Rightarrow> 'a \<Rightarrow> body \<Rightarrow> error + 'a" where
  "Decode name set_field zero b =
     (case b of
        Inl err \<Rightarrow> Inl err
      | Inr doc \<Rightarrow>
          (case decode_struct name set_field doc zero of
             (Some err, _) \<Rightarrow> Inl err
           | (None, x) \<Rightarrow> Inr x))"

text \<open>Encoding a \<^verbatim>\<open>float64\<close>: only a finite value has a JSON number.\<close>

fun encode_float64 :: "float64 \<Rightarrow> error + json" where
  "encode_float64 (Finite x) = Inr (JNumber (Finite x))"
| "encode_float64 v = Inl (LibraryError ''json: unsupported value'')"

subsection \<open>URLs and query strings (package net/url)\<close>

text \<open>
  \<^verbatim>\<open>url.Values\<close> is a Go map from a key to the list of its values: an association
  list with distinct keys. \<^verbatim>\<open>QueryEscape\<close>, \<^verbatim>\<open>QueryUnescape\<close>, \<^verbatim>\<open>ParseQuery\<close> and
  \<^verbatim>\<open>Encode\<close> follow the library: in a query, letters, digits and \<^verbatim>\<open>- _ . ~\<close> stand
  for themselves, a space is \<^verbatim>\<open>+\<close>, every other byte is \<^verbatim>\<open>%XX\<close>; \<^verbatim>\<open>Encode\<close>
  writes the keys in sorted order.
\<close>

type_synonym Values = "(string \<times> string list) list"

definition Values_Get :: "Values \<Rightarrow> string \<Rightarrow> string" where
  "Values_Get v key = (case map_of v key of Some (x # _) \<Rightarrow> x | _ \<Rightarrow> [])"

definition Values_Set :: "Values \<Rightarrow> string \<Rightarrow> string \<Rightarrow> Values" where
  "Values_Set v key val = AList.update key [val] v"

definition Values_Add :: "Values \<Rightarrow> string \<Rightarrow> string \<Rightarrow> Values" where
  "Values_Add v key val =
     AList.update key ((case map_of v key of Some vs \<Rightarrow> vs | None \<Rightarrow> []) @ [val]) v"

definition is_alnum :: "char \<Rightarrow> bool" where
  "is_alnum c = (between CHR ''a'' CHR ''z'' c \<or> between CHR ''A'' CHR ''Z'' c \<or> is_digit c)"

text \<open>The modes of escaping that the programs reach.\<close>

datatype encoding = encodePath | encodeHost | encodeQueryComponent

definition shouldEscape :: "char \<Rightarrow> encoding \<Rightarrow> bool" where
  "shouldEscape c mode =
     (if is_alnum c then False
      else if mode = encodeHost
              \<and> c \<in> set (''!$&()*+,;=:[]<>'' @ [CHR 0x27, CHR 0x22]) then False
      else if c \<in> set ''-_.~'' then False
      else if c \<in> set ''$&+,/:;=?@'' then (if mode = encodePath then c = CHR ''?'' else True)
      else True)"

definition upperhex :: "nat \<Rightarrow> char" where
  "upperhex n = ''0123456789ABCDEF'' ! (n mod 16)"

definition ishex :: "char \<Rightarrow> bool" where
  "ishex c = (is_digit c \<or> between CHR ''a'' CHR ''f'' c \<or> between CHR ''A'' CHR ''F'' c)"

definition unhex :: "char \<Rightarrow> nat" where
  "unhex c =
     (if is_digit c then of_char c - of_char CHR ''0''
      else if between CHR ''a'' CHR ''f'' c then of_char c - of_char CHR ''a'' + 10
      else if between CHR ''A'' CHR ''F'' c then of_char c - of_char CHR ''A'' + 10
      else 0)"

definition escape_byte :: "encoding \<Rightarrow> char \<Rightarrow> string" where
  "escape_byte mode c =
     (if shouldEscape c mode then
        (if c = CHR '' '' \<and> mode = encodeQueryComponent then ''+''
         else [CHR ''%'', upperhex (of_char c div 16), upperhex (of_char c mod 16)])
      else [c])"

definition escape :: "string \<Rightarrow> encoding \<Rightarrow> string" where
  "escape s mode = concat (map (escape_byte mode) s)"

definition QueryEscape :: "string \<Rightarrow> string" where
  "QueryEscape s = escape s encodeQueryComponent"

text \<open>
  \<^verbatim>\<open>QueryUnescape\<close>: a \<^verbatim>\<open>%\<close> must be followed by two hexadecimal digits, which give
  the byte; \<^verbatim>\<open>+\<close> is a space. \<open>escaped cs\<close> says that \<open>cs\<close>, the text after a
  \<^verbatim>\<open>%\<close>, starts with two such digits, and \<open>unescaped_byte cs\<close> is the byte they give.
\<close>

definition escaped :: "string \<Rightarrow> bool" where
  "escaped cs = (case cs of a # b # _ \<Rightarrow> ishex a \<and> ishex b | _ \<Rightarrow> False)"

definition unescaped_byte :: "string \<Rightarrow> char" where
  "unescaped_byte cs =
     (case cs of a # b # _ \<Rightarrow> char_of (unhex a * 16 + unhex b) | _ \<Rightarrow> CHR 0x00)"

fun QueryUnescape :: "string \<Rightarrow> error + string" where
  "QueryUnescape [] = Inr []"
| "QueryUnescape (c # cs) =
     (if c = CHR ''%'' \<and> \<not> escaped cs then Inl (LibraryError ''invalid URL escape'')
      else
        (case QueryUnescape (if c = CHR ''%'' then drop 2 cs else cs) of
           Inl err \<Rightarrow> Inl err
         | Inr t \<Rightarrow>
             Inr ((if c = CHR ''%'' then unescaped_byte cs
                   else if c = CHR ''+'' then CHR '' '' else c) # t)))"

text \<open>\<^verbatim>\<open>strings.Cut(s, sep)\<close> for a separator of one byte: the text before the first
  separator and the text after it (empty when there is none).\<close>

definition Cut :: "string \<Rightarrow> char \<Rightarrow> string \<times> string" where
  "Cut s sep = (takeWhile (\<lambda>c. c \<noteq> sep) s, drop 1 (dropWhile (\<lambda>c. c \<noteq> sep) s))"

lemma Cut_shorter: "q \<noteq> [] \<Longrightarrow> length (snd (Cut q c)) < length q"
proof -
  assume nonempty: "q \<noteq> []"
  have le: "length (dropWhile (\<lambda>x. x \<noteq> c) q) \<le> length q"
    by (rule length_dropWhile_le)
  have "length (drop 1 (dropWhile (\<lambda>x. x \<noteq> c) q)) < length q"
  proof (cases "length (dropWhile (\<lambda>x. x \<noteq> c) q) = 0")
    case True
    with nonempty show ?thesis by (simp del: dropWhile_eq_Nil_conv length_0_conv)
  next
    case False
    then have "0 < length (dropWhile (\<lambda>x. x \<noteq> c) q)"
      by blast
    with le have "length (dropWhile (\<lambda>x. x \<noteq> c) q) - 1 < length q"
      by linarith
    then show ?thesis by (simp only: length_drop)
  qed
  then show ?thesis by (simp add: Cut_def)
qed

text \<open>
  \<^verbatim>\<open>parseQuery\<close> is a loop over the pieces of the query between \<^verbatim>\<open>&\<close>;
  \<open>parseQuery_pair\<close> is the body of the loop for one piece \<open>key\<close>: a piece with a
  semicolon sets the error, an empty piece is skipped, a piece whose key or value does
  not unescape is skipped and sets the error if none is set, and any other piece adds its
  value to the values of its key.
\<close>

definition parseQuery_pair :: "Values \<times> error option \<Rightarrow> string \<Rightarrow> Values \<times> error option" where
  "parseQuery_pair st key =
     (case st of (m, err) \<Rightarrow>
        if CHR '';'' \<in> set key
          then (m, Some (LibraryError ''invalid semicolon separator in query''))
        else if key = [] then (m, err)
        else
          (case QueryUnescape (fst (Cut key CHR ''='')) of
             Inl err1 \<Rightarrow> (m, case err of None \<Rightarrow> Some err1 | Some e \<Rightarrow> Some e)
           | Inr k \<Rightarrow>
               (case QueryUnescape (snd (Cut key CHR ''='')) of
                  Inl err1 \<Rightarrow> (m, case err of None \<Rightarrow> Some err1 | Some e \<Rightarrow> Some e)
                | Inr v \<Rightarrow> (Values_Add m k v, err))))"

function parseQuery :: "Values \<times> error option \<Rightarrow> string \<Rightarrow> Values \<times> error option" where
  "parseQuery st query =
     (if query = [] then st
      else parseQuery (parseQuery_pair st (fst (Cut query CHR ''&''))) (snd (Cut query CHR ''&'')))"
  by pat_completeness auto
termination
  by (relation "measure (\<lambda>(st, query). length query)") (auto simp: Cut_shorter)

definition ParseQuery :: "string \<Rightarrow> Values \<times> error option" where
  "ParseQuery query = parseQuery ([], None) query"

fun join_amp :: "string list \<Rightarrow> string" where
  "join_amp [] = []"
| "join_amp [x] = x"
| "join_amp (x # y # ys) = x @ ''&'' @ join_amp (y # ys)"

definition Values_Encode :: "Values \<Rightarrow> string" where
  "Values_Encode v =
     join_amp
       (concat
          (map (\<lambda>k. map (\<lambda>x. QueryEscape k @ ''='' @ QueryEscape x)
                      (case map_of v k of Some vs \<Rightarrow> vs | None \<Rightarrow> []))
             (sort (map fst v))))"

text \<open>
  A \<^verbatim>\<open>url.URL\<close> with the fields the programs use; a URL here is one whose other
  fields (\<^verbatim>\<open>Opaque\<close>, \<^verbatim>\<open>User\<close>, \<^verbatim>\<open>RawPath\<close>, \<^verbatim>\<open>ForceQuery\<close>, \<^verbatim>\<open>Fragment\<close>)
  are empty. \<^verbatim>\<open>String\<close> is the library's for these fields: the host and the path are
  escaped, the query is written as it is.
\<close>

record URL =
  Scheme :: string
  Host :: string
  Path :: string
  RawQuery :: string

definition URL_Query :: "URL \<Rightarrow> Values" where
  \<comment> \<open>\<^verbatim>\<open>v, _ := ParseQuery(u.RawQuery); return v\<close>\<close>
  "URL_Query u = fst (ParseQuery (RawQuery u))"

definition EscapedPath :: "URL \<Rightarrow> string" where
  \<comment> \<open>for a URL without \<^verbatim>\<open>RawPath\<close>\<close>
  "EscapedPath u = (if Path u = ''*'' then ''*'' else escape (Path u) encodePath)"

definition URL_String :: "URL \<Rightarrow> string" where
  "URL_String u =
     (let buf = (if Scheme u \<noteq> [] then Scheme u @ '':'' else []);
          buf = buf @
            (if Scheme u \<noteq> [] \<or> Host u \<noteq> []
             then (if Host u \<noteq> [] \<or> Path u \<noteq> [] then ''//'' else [])
                  @ escape (Host u) encodeHost
             else []);
          path = EscapedPath u;
          buf = buf @
            (if path \<noteq> [] \<and> take 1 path \<noteq> ''/'' \<and> Host u \<noteq> [] then ''/'' else []);
          buf = buf @
            (if buf = [] \<and> CHR '':'' \<in> set (fst (Cut path CHR ''/'')) then ''./'' else []);
          buf = buf @ path
      in buf @ (if RawQuery u \<noteq> [] then ''?'' @ RawQuery u else []))"

subsection \<open>Trace spans (package go.opentelemetry.io/otel/trace)\<close>

text \<open>
  What a span has recorded: its attributes (a later value for a key replaces the
  earlier one) and its events; \<^verbatim>\<open>RecordError\<close> adds an exception event.
\<close>

datatype attr = AString string | AInt int

datatype event = Event string | Exception error

record Span =
  span_name :: string
  attributes :: "(string \<times> attr) list"
  events :: "event list"

definition tracer_Start :: "string \<Rightarrow> Span" where
  "tracer_Start name = \<lparr>span_name = name, attributes = [], events = []\<rparr>"

definition SetAttributes :: "Span \<Rightarrow> (string \<times> attr) list \<Rightarrow> Span" where
  "SetAttributes sp kvs =
     sp\<lparr>attributes := foldl (\<lambda>a (k, v). AList.update k v a) (attributes sp) kvs\<rparr>"

definition AddEvent :: "Span \<Rightarrow> string \<Rightarrow> Span" where
  "AddEvent sp name = sp\<lparr>events := events sp @ [Event name]\<rparr>"

definition RecordError :: "Span \<Rightarrow> error \<Rightarrow> Span" where
  "RecordError sp err = sp\<lparr>events := events sp @ [Exception err]\<rparr>"

text \<open>The attribute keys of \<^verbatim>\<open>semconv/v1.24.0\<close> that the clients use.\<close>

definition HTTPURLKey :: string where
  "HTTPURLKey = ''http.url''"

definition URLFullKey :: string where
  "URLFullKey = ''url.full''"

definition HTTPStatusCodeKey :: string where
  "HTTPStatusCodeKey = ''http.status_code''"

subsection \<open>Requests, responses and the response writer (package net/http)\<close>

text \<open>The status codes of \<^verbatim>\<open>net/http\<close> that the programs name.\<close>

abbreviation StatusOK :: int where
  "StatusOK \<equiv> 200"

abbreviation StatusBadRequest :: int where
  "StatusBadRequest \<equiv> 400"

abbreviation StatusNotFound :: int where
  "StatusNotFound \<equiv> 404"

abbreviation StatusUnprocessableEntity :: int where
  "StatusUnprocessableEntity \<equiv> 422"

abbreviation StatusInternalServerError :: int where
  "StatusInternalServerError \<equiv> 500"

record http_Request =
  Method :: string
  URL :: "URL option"
  Body :: body

record http_Response =
  StatusCode :: int
  Body :: body

text \<open>
  An \<^verbatim>\<open>*http.Client\<close> is what its \<^verbatim>\<open>Do\<close> returns for a request: an error or a
  response, and beside it the spans that the client's transport started and ended for
  the request. An \<^verbatim>\<open>http.RoundTripper\<close> takes the request and the span of the
  request's context, and returns its result and that span. \<^verbatim>\<open>http.DefaultTransport\<close>
  sends the request to the network and writes on no span: it is what the network returns
  for a request. Timeouts and cancellation are not modelled.
\<close>

type_synonym http_Client = "http_Request \<Rightarrow> (error + http_Response) \<times> Span list"

type_synonym RoundTripper = "http_Request \<Rightarrow> Span \<Rightarrow> (error + http_Response) \<times> Span"

type_synonym http_Transport = "http_Request \<Rightarrow> error + http_Response"

text \<open>
  \<^verbatim>\<open>http.NewRequestWithContext(ctx, method, url, nil)\<close> fails when \<^verbatim>\<open>url.Parse\<close>
  fails (the methods and contexts of the programs are valid). \<^verbatim>\<open>url.Parse\<close> is a
  parameter of the model. A request without a body reads as an empty stream.
\<close>

definition NewRequestWithContext ::
  "(string \<Rightarrow> error + URL) \<Rightarrow> string \<Rightarrow> string \<Rightarrow> error + http_Request" where
  "NewRequestWithContext url_Parse method url =
     (case url_Parse url of
        Inl err \<Rightarrow> Inl err
      | Inr u \<Rightarrow> Inr \<lparr>Method = method, URL = Some u, http_Request.Body = Inl (LibraryError ''EOF'')\<rparr>)"

text \<open>
  \<^verbatim>\<open>&http.Client{Transport: transport}\<close>: \<^verbatim>\<open>Do\<close> hands the request to the
  transport and returns its response; an error of the transport comes back as a
  \<^verbatim>\<open>*url.Error\<close> with the method as \<^verbatim>\<open>Op\<close> (\<^verbatim>\<open>urlErrorOp\<close>: the first letter
  as it is, the others in lower case) and the text of the request's URL
  (\<^verbatim>\<open>stripPassword\<close>, which is \<^verbatim>\<open>String\<close> for a URL without user information).
  A response here has a status and a body and no header, so \<^verbatim>\<open>Do\<close> follows no
  redirect. \<open>transport\<close> starts a span of its own for the request and returns it.
\<close>

definition ToLower :: "char \<Rightarrow> char" where
  "ToLower c = (if between CHR ''A'' CHR ''Z'' c then char_of (of_char c + (32::nat)) else c)"

definition urlErrorOp :: "string \<Rightarrow> string" where
  "urlErrorOp method =
     (if method = [] then ''Get''
      else if list_all (between CHR 0x20 CHR 0x7E) method
        then take 1 method @ map ToLower (drop 1 method)
      else method)"

definition Client_Do :: "(http_Request \<Rightarrow> (error + http_Response) \<times> Span) \<Rightarrow> http_Client" where
  "Client_Do transport req =
     (case URL req of
        None \<Rightarrow>
          (Inl (url_Error (urlErrorOp (Method req)) [] (LibraryError ''http: nil Request.URL'')),
           [])
      | Some u \<Rightarrow>
          (case transport req of
             (Inl err, sp) \<Rightarrow>
               (Inl (url_Error (urlErrorOp (Method req)) (URL_String u) err), [sp])
           | (Inr resp, sp) \<Rightarrow> (Inr resp, [sp])))"

text \<open>
  \<^verbatim>\<open>otelhttp.NewTransport(rt)\<close>: \<^verbatim>\<open>RoundTrip\<close> starts a span named after the method,
  sets the attributes that describe the request, and calls \<^verbatim>\<open>rt.RoundTrip\<close> with the
  request in the context of that span. An error is recorded on the span; for a response
  the attributes that describe it are set. Which attributes describe a request and a
  response is a table of the library, by its version
  (\<^verbatim>\<open>semconvutil.HTTPClientRequest\<close>, \<^verbatim>\<open>semconvutil.HTTPClientResponse\<close>): a
  parameter here. The status of a span is not modelled.
\<close>

record semconvutil =
  HTTPClientRequest :: "http_Request \<Rightarrow> (string \<times> attr) list"
  HTTPClientResponse :: "http_Response \<Rightarrow> (string \<times> attr) list"

definition otelhttp_RoundTrip ::
  "semconvutil \<Rightarrow> RoundTripper \<Rightarrow> http_Request \<Rightarrow> (error + http_Response) \<times> Span" where
  "otelhttp_RoundTrip sc rt r =
     (let sp = tracer_Start (''HTTP '' @ Method r);
          sp = SetAttributes sp (HTTPClientRequest sc r)
      in case rt r sp of
           (Inl err, sp1) \<Rightarrow> (Inl err, RecordError sp1 err)
         | (Inr res, sp1) \<Rightarrow> (Inr res, SetAttributes sp1 (HTTPClientResponse sc res)))"

text \<open>
  An \<^verbatim>\<open>http.ResponseWriter\<close>: the header map, the status once it is written (the
  first \<^verbatim>\<open>WriteHeader\<close> wins, and the first \<^verbatim>\<open>Write\<close> implies 200), and what was
  written to the body: a line of text by \<^verbatim>\<open>http.Error\<close>, a document by
  \<^verbatim>\<open>json.NewEncoder(w).Encode\<close>.
\<close>

datatype chunk = Text string | Json json

record ResponseWriter =
  rw_header :: "(string \<times> string list) list"
  rw_status :: "int option"
  rw_body :: "chunk list"

definition new_ResponseWriter :: ResponseWriter where
  "new_ResponseWriter = \<lparr>rw_header = [], rw_status = None, rw_body = []\<rparr>"

definition Header_Set :: "ResponseWriter \<Rightarrow> string \<Rightarrow> string \<Rightarrow> ResponseWriter" where
  \<comment> \<open>\<^verbatim>\<open>w.Header().Set(key, value)\<close>\<close>
  "Header_Set w key val = w\<lparr>rw_header := AList.update key [val] (rw_header w)\<rparr>"

definition Header_Del :: "ResponseWriter \<Rightarrow> string \<Rightarrow> ResponseWriter" where
  "Header_Del w key = w\<lparr>rw_header := AList.delete key (rw_header w)\<rparr>"

definition WriteHeader :: "ResponseWriter \<Rightarrow> int \<Rightarrow> ResponseWriter" where
  "WriteHeader w code = (case rw_status w of None \<Rightarrow> w\<lparr>rw_status := Some code\<rparr> | Some _ \<Rightarrow> w)"

definition Write :: "ResponseWriter \<Rightarrow> chunk \<Rightarrow> ResponseWriter" where
  "Write w c = (let w1 = WriteHeader w StatusOK in w1\<lparr>rw_body := rw_body w1 @ [c]\<rparr>)"

definition http_Error :: "ResponseWriter \<Rightarrow> string \<Rightarrow> int \<Rightarrow> ResponseWriter" where
  \<comment> \<open>\<^verbatim>\<open>http.Error(w, error, code)\<close>; \<^verbatim>\<open>fmt.Fprintln\<close> ends the line\<close>
  "http_Error w err code =
     (let w1 = Header_Del w ''Content-Length'';
          w2 = Header_Set w1 ''Content-Type'' ''text/plain; charset=utf-8'';
          w3 = Header_Set w2 ''X-Content-Type-Options'' ''nosniff'';
          w4 = WriteHeader w3 code
      in Write w4 (Text (err @ [CHR 0x0A])))"

definition Encode :: "ResponseWriter \<Rightarrow> error + json \<Rightarrow> ResponseWriter" where
  \<comment> \<open>\<^verbatim>\<open>json.NewEncoder(w).Encode(v)\<close>, its error dropped as both handlers drop it:
      a value that cannot be marshalled writes nothing\<close>
  "Encode w v = (case v of Inl err \<Rightarrow> w | Inr doc \<Rightarrow> Write w (Json doc))"

subsection \<open>Package viacep: the Address Resolver\<close>

record ViaCepResponse =
  Cep :: string
  Street :: string
  City :: string
  State :: string
  Erro :: bool

definition ViaCepResponse_zero :: ViaCepResponse where
  "ViaCepResponse_zero = \<lparr>Cep = [], Street = [], City = [], State = [], Erro = False\<rparr>"

definition set_ViaCepResponse ::
  "string \<Rightarrow> json \<Rightarrow> ViaCepResponse \<Rightarrow> error option \<times> ViaCepResponse" where
  \<comment> \<open>the struct tags \<^verbatim>\<open>cep\<close>, \<^verbatim>\<open>logradouro\<close>, \<^verbatim>\<open>localidade\<close>, \<^verbatim>\<open>uf\<close>, \<^verbatim>\<open>erro\<close>\<close>
  "set_ViaCepResponse k v x =
     (let f = foldName k in
      if f = foldName ''cep'' then
        (case decode_string ''ViaCepResponse.cep'' v (ViaCepResponse.Cep x) of
           (e, s) \<Rightarrow> (e, x\<lparr>ViaCepResponse.Cep := s\<rparr>))
      else if f = foldName ''logradouro'' then
        (case decode_string ''ViaCepResponse.logradouro'' v (Street x) of
           (e, s) \<Rightarrow> (e, x\<lparr>Street := s\<rparr>))
      else if f = foldName ''localidade'' then
        (case decode_string ''ViaCepResponse.localidade'' v (ViaCepResponse.City x) of
           (e, s) \<Rightarrow> (e, x\<lparr>ViaCepResponse.City := s\<rparr>))
      else if f = foldName ''uf'' then
        (case decode_string ''ViaCepResponse.uf'' v (State x) of
           (e, s) \<Rightarrow> (e, x\<lparr>State := s\<rparr>))
      else if f = foldName ''erro'' then
        (case decode_bool ''ViaCepResponse.erro'' v (ViaCepResponse.Erro x) of
           (e, b) \<Rightarrow> (e, x\<lparr>ViaCepResponse.Erro := b\<rparr>))
      else (None, x))"

text \<open>
  The client. \<^verbatim>\<open>NewClient\<close> builds
  \<^verbatim>\<open>&http.Client{Transport: otelhttp.NewTransport(http.DefaultTransport), ...}\<close>.
  The logger and the tracer of the struct are the effects that \<^verbatim>\<open>FindAddressByCep\<close>
  returns.
\<close>

record viacep_Client =
  httpClient :: http_Client
  baseURL :: string

definition viacep_NewClient :: "semconvutil \<Rightarrow> http_Transport \<Rightarrow> viacep_Client" where
  "viacep_NewClient sc DefaultTransport =
     \<lparr>httpClient = Client_Do (otelhttp_RoundTrip sc (\<lambda>req sp. (DefaultTransport req, sp))),
      baseURL = ''https://viacep.com.br''\<rparr>"

text \<open>
  \<^verbatim>\<open>FindAddressByCep\<close> returns the address or the error, the span it started, as
  it stands when the span ends, the spans of its HTTP client, and the lines it printed to
  the logger.
\<close>

definition FindAddressByCep ::
  "(string \<Rightarrow> error + URL) \<Rightarrow> viacep_Client \<Rightarrow> string \<Rightarrow>
   (error + ViaCepResponse) \<times> Span \<times> Span list \<times> string list" where
  "FindAddressByCep url_Parse c cep =
     (let sp = SetAttributes (tracer_Start ''FindAddressByCep'') [(''cep.value'', AString cep)];
          url = viacep_Client.baseURL c @ ''/ws/'' @ cep @ ''/json/''
      in case NewRequestWithContext url_Parse ''GET'' url of
           Inl err \<Rightarrow> (Inl err, RecordError sp err, [], [])
         | Inr req \<Rightarrow>
             (case viacep_Client.httpClient c req of
                (Inl err, spans) \<Rightarrow>
                  (Inl viacep_ErrInternal, RecordError sp err, spans,
                   [''Error requesting from ViaCEP API: '' @ Error err])
              | (Inr resp, spans) \<Rightarrow>
                  (let span1 = SetAttributes sp [(HTTPStatusCodeKey, AInt (StatusCode resp))]
                   in if StatusCode resp \<noteq> StatusOK then
                        (Inl ErrCepNotFound,
                         AddEvent span1 ''ViaCEP API returned non-OK status'', spans, [])
                      else
                        (case Decode ''ViaCepResponse'' set_ViaCepResponse ViaCepResponse_zero
                                (http_Response.Body resp) of
                           Inl err \<Rightarrow>
                             (Inl viacep_ErrInternal, RecordError span1 err, spans,
                              [''Error decoding ViaCEP API response: '' @ Error err])
                         | Inr data \<Rightarrow>
                             if ViaCepResponse.Erro data then
                               (Inl ErrCepNotFound,
                                AddEvent span1
                                  ''ViaCEP API response indicates CEP not found (erro=true)'',
                                spans, [])
                             else (Inr data, span1, spans, [])))))"

subsection \<open>Package weatherapi: the Weather Resolver\<close>

record CurrentWeather =
  TempC :: float64
  TempF :: float64

record WeatherApiResponse =
  Current :: CurrentWeather
  Erro :: bool

definition WeatherApiResponse_zero :: WeatherApiResponse where
  "WeatherApiResponse_zero =
     \<lparr>Current = \<lparr>TempC = Finite 0, TempF = Finite 0\<rparr>, Erro = False\<rparr>"

definition set_CurrentWeather ::
  "string \<Rightarrow> json \<Rightarrow> CurrentWeather \<Rightarrow> error option \<times> CurrentWeather" where
  \<comment> \<open>the struct tags \<^verbatim>\<open>temp_c\<close>, \<^verbatim>\<open>temp_f\<close>\<close>
  "set_CurrentWeather k v x =
     (let f = foldName k in
      if f = foldName ''temp_c'' then
        (case decode_float64 ''CurrentWeather.temp_c'' v (CurrentWeather.TempC x) of
           (e, t) \<Rightarrow> (e, x\<lparr>CurrentWeather.TempC := t\<rparr>))
      else if f = foldName ''temp_f'' then
        (case decode_float64 ''CurrentWeather.temp_f'' v (CurrentWeather.TempF x) of
           (e, t) \<Rightarrow> (e, x\<lparr>CurrentWeather.TempF := t\<rparr>))
      else (None, x))"

definition set_WeatherApiResponse ::
  "string \<Rightarrow> json \<Rightarrow> WeatherApiResponse \<Rightarrow> error option \<times> WeatherApiResponse" where
  \<comment> \<open>the struct tags \<^verbatim>\<open>current\<close>, \<^verbatim>\<open>erro\<close>\<close>
  "set_WeatherApiResponse k v x =
     (let f = foldName k in
      if f = foldName ''current'' then
        (case decode_struct ''WeatherApiResponse.current'' set_CurrentWeather v (Current x) of
           (e, c) \<Rightarrow> (e, x\<lparr>Current := c\<rparr>))
      else if f = foldName ''erro'' then
        (case decode_bool ''WeatherApiResponse.erro'' v (WeatherApiResponse.Erro x) of
           (e, b) \<Rightarrow> (e, x\<lparr>WeatherApiResponse.Erro := b\<rparr>))
      else (None, x))"

text \<open>
  \<^verbatim>\<open>redactingTransport\<close> wraps a round tripper \<open>base\<close>. \<^verbatim>\<open>RoundTrip\<close> takes the
  request and the span of the request's context (\<^verbatim>\<open>trace.SpanFromContext\<close>), and
  returns what \<open>base\<close> returns for the request, and the span.
\<close>

record redactingTransport =
  base :: http_Transport

definition RoundTrip ::
  "redactingTransport \<Rightarrow> http_Request \<Rightarrow> Span \<Rightarrow> (error + http_Response) \<times> Span" where
  "RoundTrip t req sp =
     (let span1 =
        (case URL req of
           None \<Rightarrow> sp
         | Some u \<Rightarrow>
             (let q = URL_Query u
              in if Values_Get q ''key'' \<noteq> [] then
                   (let sanitizedURL = u;
                        newQuery = URL_Query u;
                        newQuery = Values_Set newQuery ''key'' ''***'';
                        sanitizedURL = sanitizedURL\<lparr>RawQuery := Values_Encode newQuery\<rparr>;
                        sanitizedURLString = URL_String sanitizedURL
                    in SetAttributes sp
                         [(HTTPURLKey, AString sanitizedURLString),
                          (URLFullKey, AString sanitizedURLString)])
                 else sp))
      in (base t req, span1))"

text \<open>
  The client. \<^verbatim>\<open>NewClient\<close> builds
  \<^verbatim>\<open>&http.Client{Transport: otelhttp.NewTransport(&redactingTransport{base: http.DefaultTransport}), ...}\<close>:
  the span of the context of the request that \<^verbatim>\<open>redactingTransport.RoundTrip\<close> gets is
  the one that \<^verbatim>\<open>otelhttp\<close> started.
\<close>

record weatherapi_Client =
  apiKey :: string
  httpClient :: http_Client
  baseURL :: string

definition weatherapi_NewClient ::
  "semconvutil \<Rightarrow> http_Transport \<Rightarrow> string \<Rightarrow> weatherapi_Client" where
  "weatherapi_NewClient sc DefaultTransport key =
     \<lparr>apiKey = key,
      httpClient = Client_Do (otelhttp_RoundTrip sc (RoundTrip \<lparr>base = DefaultTransport\<rparr>)),
      baseURL = ''https://api.weatherapi.com/v1''\<rparr>"

text \<open>
  \<^verbatim>\<open>FindTemperatureByCity\<close> returns what \<^verbatim>\<open>FindAddressByCep\<close> does: its result, its
  span, the spans of its HTTP client and the lines it printed. The parsed base URL (the Go
  variable \<^verbatim>\<open>baseURL\<close>, which shadows the field) is \<open>u\<close>.
\<close>

definition FindTemperatureByCity ::
  "(string \<Rightarrow> error + URL) \<Rightarrow> weatherapi_Client \<Rightarrow> string \<Rightarrow>
   (error + WeatherApiResponse) \<times> Span \<times> Span list \<times> string list" where
  "FindTemperatureByCity url_Parse c city =
     (let sp = SetAttributes (tracer_Start ''FindTemperatureByCity'')
                   [(''city.name'', AString city)]
      in case url_Parse (weatherapi_Client.baseURL c) of
           Inl err \<Rightarrow>
             (Inl weatherapi_ErrInternal, RecordError sp err, [],
              [''Invalid base URL: '' @ Error err])
         | Inr u \<Rightarrow>
             (let u = u\<lparr>Path := Path u @ ''/current.json''\<rparr>;
                  params = [];
                  params = Values_Add params ''key'' (apiKey c);
                  params = Values_Add params ''q'' city;
                  u = u\<lparr>RawQuery := Values_Encode params\<rparr>;
                  fullURL = URL_String u
              in case NewRequestWithContext url_Parse ''GET'' fullURL of
                   Inl err \<Rightarrow> (Inl err, RecordError sp err, [], [])
                 | Inr req \<Rightarrow>
                     (case weatherapi_Client.httpClient c req of
                        (Inl err, spans) \<Rightarrow>
                          (Inl weatherapi_ErrInternal, RecordError sp err, spans,
                           [''Error requesting from WeatherAPI: '' @ Error err])
                      | (Inr resp, spans) \<Rightarrow>
                          if StatusCode resp \<noteq> StatusOK then
                            (Inl ErrCityNotFound,
                             AddEvent sp ''WeatherAPI returned non-OK status'', spans, [])
                          else
                            (case Decode ''WeatherApiResponse'' set_WeatherApiResponse
                                    WeatherApiResponse_zero (http_Response.Body resp) of
                               Inl err \<Rightarrow>
                                 (Inl weatherapi_ErrInternal, RecordError sp err, spans,
                                  [''Error decoding WeatherAPI response: '' @ Error err])
                             | Inr data \<Rightarrow> (Inr data, sp, spans, [])))))"

subsection \<open>app2: the Orchestrator\<close>

text \<open>
  The two clients are interface values in \<^verbatim>\<open>application\<close> (the tests may put
  anything behind them), so they are parameters here: a call takes the state of the
  world \<open>'s\<close> and returns its result and the state after it. \<^verbatim>\<open>logger.Printf\<close>
  with its formatted line changes the state too. A client returns the error or the
  value (the clients of the repository return exactly one of the two).
\<close>

record 's app2_application =
  viaCepClient :: "string \<Rightarrow> 's \<Rightarrow> (error + ViaCepResponse) \<times> 's"
  weatherApiClient :: "string \<Rightarrow> 's \<Rightarrow> (error + WeatherApiResponse) \<times> 's"
  logger :: "string \<Rightarrow> 's \<Rightarrow> 's"

record app2_response =
  City :: string
  TempC :: float64
  TempF :: float64
  TempK :: float64

definition marshal_app2_response :: "app2_response \<Rightarrow> error + json" where
  \<comment> \<open>the struct tags \<^verbatim>\<open>city\<close>, \<^verbatim>\<open>temp_C\<close>, \<^verbatim>\<open>temp_F\<close>, \<^verbatim>\<open>temp_K\<close>; the encoder
      coerces a string to well-formed UTF-8\<close>
  "marshal_app2_response r =
     (case encode_float64 (app2_response.TempC r) of
        Inl err \<Rightarrow> Inl err
      | Inr c \<Rightarrow>
          (case encode_float64 (app2_response.TempF r) of
             Inl err \<Rightarrow> Inl err
           | Inr f \<Rightarrow>
               (case encode_float64 (app2_response.TempK r) of
                  Inl err \<Rightarrow> Inl err
                | Inr k \<Rightarrow>
                    Inr (JObject [(''city'', JString (coerce_utf8 (app2_response.City r))),
                                  (''temp_C'', c), (''temp_F'', f), (''temp_K'', k)]))))"

definition InternalErrorMessage :: string where
  "InternalErrorMessage =
     ''ocorreu um erro ao processar sua requisi'' @ [CHR 0xC3, CHR 0xA7, CHR 0xC3, CHR 0xA3] @ ''o''"

text \<open>
  The handler in two parts: \<open>app2_handler\<close> is the function up to the validation of
  the parameter, \<open>app2_handler_resolve\<close> is its body from the comment \<^verbatim>\<open>// 1.\<close> on,
  with the validated \<^verbatim>\<open>cep\<close>. The handler's own span records nothing but its name and
  is left out. The constant \<^verbatim>\<open>273.15\<close> is the binary64 value nearest to it.
\<close>

definition app2_handler_resolve ::
  "'s app2_application \<Rightarrow> ResponseWriter \<Rightarrow> string \<Rightarrow> 's \<Rightarrow> ResponseWriter \<times> 's" where
  "app2_handler_resolve app w cep s =
     (case viaCepClient app cep s of
        (Inl err, s1) \<Rightarrow>
          if err = ErrCepNotFound then (http_Error w (Error ErrCepNotFound) StatusNotFound, s1)
          else (http_Error w InternalErrorMessage StatusInternalServerError,
                logger app (''Error can not find CEP: '' @ Error err) s1)
      | (Inr address, s1) \<Rightarrow>
          (case weatherApiClient app (ViaCepResponse.City address) s1 of
             (Inl err, s2) \<Rightarrow>
               (http_Error w InternalErrorMessage StatusInternalServerError,
                logger app
                  (''Internal error while fetching temperature for the city ''
                   @ ViaCepResponse.City address @ '': '' @ Error err) s2)
           | (Inr weather, s2) \<Rightarrow>
               (let response =
                      \<lparr>app2_response.City = ViaCepResponse.City address,
                       TempC = CurrentWeather.TempC (Current weather),
                       TempF = CurrentWeather.TempF (Current weather),
                       TempK = f64_add (CurrentWeather.TempC (Current weather))
                                 (f64_round (27315 / 100))\<rparr>;
                    w1 = Header_Set w ''Content-Type'' ''application/json''
                in (Encode w1 (marshal_app2_response response), s2))))"

definition app2_handler ::
  "'s app2_application \<Rightarrow> ResponseWriter \<Rightarrow> http_Request \<Rightarrow> 's \<Rightarrow>
   panic + ResponseWriter \<times> 's" where
  "app2_handler app w r s =
     (case URL r of
        None \<Rightarrow> Inl NilDereference
      | Some u \<Rightarrow>
          (let cep = Values_Get (URL_Query u) ''cep''
           in if cep = [] then
                Inr (http_Error w
                       (''par'' @ [CHR 0xC3, CHR 0xA2] @ ''metro 'cep' '' @ [CHR 0xC3, CHR 0xA9]
                        @ '' obrigat'' @ [CHR 0xC3, CHR 0xB3] @ ''rio'') StatusBadRequest, s)
              else if \<not> MatchString cepRegex cep then
                Inr (http_Error w (''inv'' @ [CHR 0xC3, CHR 0xA1] @ ''lid zipcode'')
                       StatusUnprocessableEntity, s)
              else Inr (app2_handler_resolve app w cep s)))"

text \<open>
  To observe which resolver is called, and with what: \<open>traced app\<close> is \<open>app\<close> with
  each client writing its call to a log kept beside the state.
\<close>

datatype call = Call_FindAddressByCep string | Call_FindTemperatureByCity string

definition traced :: "'s app2_application \<Rightarrow> ('s \<times> call list) app2_application" where
  "traced app =
     \<lparr>viaCepClient = (\<lambda>cep (s, calls).
        (case viaCepClient app cep s of
           (res, s1) \<Rightarrow> (res, s1, calls @ [Call_FindAddressByCep cep]))),
      weatherApiClient = (\<lambda>city (s, calls).
        (case weatherApiClient app city s of
           (res, s1) \<Rightarrow> (res, s1, calls @ [Call_FindTemperatureByCity city]))),
      logger = (\<lambda>line (s, calls). (logger app line s, calls))\<rparr>"

subsection \<open>app1: the Edge\<close>

record app1_Request =
  Cep :: string

record app1_Response =
  City :: string
  TempC :: float64
  TempF :: float64
  TempK :: float64

definition app1_Response_zero :: app1_Response where
  "app1_Response_zero = \<lparr>City = [], TempC = Finite 0, TempF = Finite 0, TempK = Finite 0\<rparr>"

definition set_app1_Request :: "string \<Rightarrow> json \<Rightarrow> app1_Request \<Rightarrow> error option \<times> app1_Request" where
  \<comment> \<open>the struct tag \<^verbatim>\<open>cep\<close>\<close>
  "set_app1_Request k v x =
     (if foldName k = foldName ''cep'' then
        (case decode_string ''Request.cep'' v (app1_Request.Cep x) of
           (e, s) \<Rightarrow> (e, x\<lparr>app1_Request.Cep := s\<rparr>))
      else (None, x))"

definition set_app1_Response ::
  "string \<Rightarrow> json \<Rightarrow> app1_Response \<Rightarrow> error option \<times> app1_Response" where
  \<comment> \<open>the struct tags \<^verbatim>\<open>city\<close>, \<^verbatim>\<open>temp_C\<close>, \<^verbatim>\<open>temp_F\<close>, \<^verbatim>\<open>temp_K\<close>\<close>
  "set_app1_Response k v x =
     (let f = foldName k in
      if f = foldName ''city'' then
        (case decode_string ''Response.city'' v (app1_Response.City x) of
           (e, s) \<Rightarrow> (e, x\<lparr>app1_Response.City := s\<rparr>))
      else if f = foldName ''temp_C'' then
        (case decode_float64 ''Response.temp_C'' v (app1_Response.TempC x) of
           (e, t) \<Rightarrow> (e, x\<lparr>app1_Response.TempC := t\<rparr>))
      else if f = foldName ''temp_F'' then
        (case decode_float64 ''Response.temp_F'' v (app1_Response.TempF x) of
           (e, t) \<Rightarrow> (e, x\<lparr>app1_Response.TempF := t\<rparr>))
      else if f = foldName ''temp_K'' then
        (case decode_float64 ''Response.temp_K'' v (app1_Response.TempK x) of
           (e, t) \<Rightarrow> (e, x\<lparr>app1_Response.TempK := t\<rparr>))
      else (None, x))"

definition marshal_app1_Response :: "app1_Response \<Rightarrow> error + json" where
  "marshal_app1_Response r =
     (case encode_float64 (app1_Response.TempC r) of
        Inl err \<Rightarrow> Inl err
      | Inr c \<Rightarrow>
          (case encode_float64 (app1_Response.TempF r) of
             Inl err \<Rightarrow> Inl err
           | Inr f \<Rightarrow>
               (case encode_float64 (app1_Response.TempK r) of
                  Inl err \<Rightarrow> Inl err
                | Inr k \<Rightarrow>
                    Inr (JObject [(''city'', JString (coerce_utf8 (app1_Response.City r))),
                                  (''temp_C'', c), (''temp_F'', f), (''temp_K'', k)]))))"

text \<open>
  The Edge's \<^verbatim>\<open>application\<close> with its \<^verbatim>\<open>httpClient\<close>. \<^verbatim>\<open>os.Getenv\<close> and
  \<^verbatim>\<open>url.Parse\<close> are parameters. As for app2 the handler is in two parts:
  \<open>app1_handler\<close> is step 1 of the function (the validation), and
  \<open>app1_handler_process\<close> is steps 2 and 3, with the validated \<^verbatim>\<open>req.Cep\<close>. Both
  return the response writer and the handler's span, on which errors are recorded (the
  spans of the HTTP client are not kept).
\<close>

record app1_application =
  httpClient :: http_Client

definition app1_handler_process ::
  "(string \<Rightarrow> string) \<Rightarrow> (string \<Rightarrow> error + URL) \<Rightarrow> app1_application \<Rightarrow> ResponseWriter \<Rightarrow>
   string \<Rightarrow> Span \<Rightarrow> ResponseWriter \<times> Span" where
  "app1_handler_process Getenv url_Parse app w cep sp =
     (let app2Endpoint = Getenv ''APP2_BASE_URL'' @ ''/get-weather-by-cep?cep='' @ cep
      in case NewRequestWithContext url_Parse ''GET'' app2Endpoint of
           Inl err \<Rightarrow>
             (http_Error w ''fail create request to orchestrator service''
                StatusInternalServerError,
              RecordError sp err)
         | Inr reqApp2 \<Rightarrow>
             (case fst (app1_application.httpClient app reqApp2) of
                Inl err \<Rightarrow>
                  (http_Error w (Error err) StatusInternalServerError, RecordError sp err)
              | Inr response \<Rightarrow>
                  if StatusCode response = StatusNotFound then
                    (http_Error w ''can not find zipcode'' StatusNotFound, sp)
                  else if StatusCode response \<ge> StatusBadRequest then
                    (http_Error w ''error on find weather in orchestrator service''
                       (StatusCode response), sp)
                  else
                    (case Decode ''Response'' set_app1_Response app1_Response_zero
                            (http_Response.Body response) of
                       Inl err \<Rightarrow>
                  (http_Error w (Error err) StatusInternalServerError, RecordError sp err)
                     | Inr resp \<Rightarrow>
                         (let w1 = Header_Set w ''Content-Type'' ''application/json'';
                              w2 = WriteHeader w1 StatusOK
                          in (Encode w2 (marshal_app1_Response resp), sp)))))"

definition app1_handler ::
  "(string \<Rightarrow> string) \<Rightarrow> (string \<Rightarrow> error + URL) \<Rightarrow> app1_application \<Rightarrow> ResponseWriter \<Rightarrow>
   http_Request \<Rightarrow> ResponseWriter \<times> Span" where
  "app1_handler Getenv url_Parse app w r =
     (let sp = tracer_Start ''/weather-by-cep''
      in case Decode ''Request'' set_app1_Request \<lparr>Cep = []\<rparr> (http_Request.Body r) of
           Inl err \<Rightarrow> (http_Error w (Error err) StatusBadRequest, sp)
         | Inr req \<Rightarrow>
             if app1_Request.Cep req = [] then
               (http_Error w ''param 'cep' is required'' StatusBadRequest, sp)
             else if \<not> MatchString cepRegex (app1_Request.Cep req) then
               (http_Error w ''invalid zipcode'' StatusUnprocessableEntity, sp)
             else app1_handler_process Getenv url_Parse app w (app1_Request.Cep req) sp)"

section \<open>Properties\<close>

subsection \<open>The pattern of a postal code\<close>

text \<open>
  Matching by derivatives decides membership in the language of the expression, and the
  language of \<^const>\<open>cepRegex\<close> is the set of the strings of five digits, a hyphen and
  three digits.
\<close>

lemma nullable_lang: "nullable r \<longleftrightarrow> [] \<in> lang r"
  by (induction r) auto

lemma deriv_lang: "lang (deriv c r) = {s. c # s \<in> lang r}"
proof (induction r)
  case (Concat r s)
  show ?case
  proof (cases "nullable r")
    case True
    then show ?thesis using Concat
      by (auto simp: nullable_lang Cons_eq_append_conv; metis append_Cons)
  next
    case False
    then show ?thesis using Concat
      by (auto simp: nullable_lang Cons_eq_append_conv; metis append_Cons)
  qed
qed auto

lemma MatchString_lang: "MatchString r s \<longleftrightarrow> s \<in> lang r"
  unfolding MatchString_def
  by (induction s arbitrary: r) (auto simp: nullable_lang deriv_lang)

lemma lang_CharClass_Concat:
  "s \<in> lang (Concat (CharClass lo hi) r) \<longleftrightarrow>
     (\<exists>c v. s = c # v \<and> between lo hi c \<and> v \<in> lang r)"
proof
  assume "s \<in> lang (Concat (CharClass lo hi) r)"
  then show "\<exists>c v. s = c # v \<and> between lo hi c \<and> v \<in> lang r"
    by auto
next
  assume "\<exists>c v. s = c # v \<and> between lo hi c \<and> v \<in> lang r"
  then obtain c v where h: "s = [c] @ v" "between lo hi c" "v \<in> lang r"
    by auto
  have "[c] \<in> lang (CharClass lo hi)" using h by simp
  with h show "s \<in> lang (Concat (CharClass lo hi) r)"
    unfolding lang.simps by blast
qed

lemma lang_Repeat_CharClass:
  "lang (Repeat (CharClass lo hi) n) = {s. length s = n \<and> list_all (between lo hi) s}"
proof (induction n)
  case 0
  show ?case by auto
next
  case (Suc n)
  show ?case
  proof (rule set_eqI)
    fix s
    show "s \<in> lang (Repeat (CharClass lo hi) (Suc n)) \<longleftrightarrow>
          s \<in> {s. length s = Suc n \<and> list_all (between lo hi) s}"
    proof (cases s)
      case Nil
      then show ?thesis
        unfolding Repeat.simps lang_CharClass_Concat by simp
    next
      case (Cons a t)
      then show ?thesis
        unfolding Repeat.simps lang_CharClass_Concat by (auto simp: Suc)
    qed
  qed
qed

lemma MatchString_cepRegex: "MatchString cepRegex s \<longleftrightarrow> is_PostalCode s"
proof -
  have "MatchString cepRegex s \<longleftrightarrow>
        (\<exists>a b. s = a @ ''-'' @ b \<and> length a = 5 \<and> length b = 3
           \<and> list_all is_digit a \<and> list_all is_digit b)"
    unfolding MatchString_lang cepRegex_def
    by (auto simp: lang_Repeat_CharClass is_digit_def [abs_def])
  also have "\<dots> \<longleftrightarrow> is_PostalCode s"
  proof
    assume "\<exists>a b. s = a @ ''-'' @ b \<and> length a = 5 \<and> length b = 3
           \<and> list_all is_digit a \<and> list_all is_digit b"
    then show "is_PostalCode s" by (auto simp: is_PostalCode_def)
  next
    assume h: "is_PostalCode s"
    then have "s = take 5 s @ take 1 (drop 5 s) @ drop 6 s"
      by (metis append_take_drop_id drop_drop numeral_plus_one one_plus_numeral semiring_norm(2,4,5,8) add.commute)
    with h show "\<exists>a b. s = a @ ''-'' @ b \<and> length a = 5 \<and> length b = 3
           \<and> list_all is_digit a \<and> list_all is_digit b"
      unfolding is_PostalCode_def
      by (intro exI[of _ "take 5 s"] exI[of _ "drop 6 s"]) auto
  qed
  finally show ?thesis .
qed

subsection \<open>Well-formed UTF-8\<close>

text \<open>
  The size of the encoding at the head of a string depends on the bytes of that encoding
  only, and U+FFFD is well formed: so coercing a string a second time changes nothing.
\<close>

lemma utf8_width_le: "utf8_width s \<le> length s"
  by (auto simp: utf8_width_def utf8_size_def Let_def Suc_le_eq split: list.splits)

lemma utf8_width_prefix:
  "0 < utf8_width s \<Longrightarrow> utf8_width (take (utf8_width s) s @ r) = utf8_width s"
  by (auto simp: utf8_width_def utf8_size_def Let_def nth_append split: list.splits if_splits)

lemma utf8_width_replacement: "utf8_width (CHR 0xEF # CHR 0xBF # CHR 0xBD # r) = 3"
  by (simp add: utf8_width_def utf8_size_def accept_lo_def accept_hi_def between_def Let_def
        less_eq_char_def less_char_def)

lemma coerce_utf8_rune:
  assumes "0 < utf8_width s"
  shows "coerce_utf8 (take (utf8_width s) s @ r) = take (utf8_width s) s @ coerce_utf8 r"
proof -
  let ?n = "utf8_width s"
  from assms utf8_width_le [of s] obtain c cs where s: "s = c # cs"
    by (cases s) auto
  from assms obtain m where n: "?n = Suc m"
    by (cases ?n) auto
  have head: "take ?n s @ r = c # (take m cs @ r)"
    using n by (simp add: s)
  have width: "utf8_width (c # (take m cs @ r)) = ?n"
    using utf8_width_prefix [OF assms, of r] by (simp add: head)
  have m: "m \<le> length cs"
    using utf8_width_le [of s] n by (simp add: s)
  have "coerce_utf8 (c # (take m cs @ r))
          = take ?n (c # (take m cs @ r)) @ coerce_utf8 (drop m (take m cs @ r))"
    using width n by simp
  also have "take ?n (c # (take m cs @ r)) = take ?n s"
    using n m by (simp add: s)
  also have "drop m (take m cs @ r) = r"
    using m by simp
  finally show ?thesis
    by (simp add: head)
qed

lemma coerce_utf8_replacement:
  "coerce_utf8 (CHR 0xEF # CHR 0xBF # CHR 0xBD # r) = CHR 0xEF # CHR 0xBF # CHR 0xBD # coerce_utf8 r"
  by (simp add: utf8_width_replacement)

lemma coerce_utf8_idem: "coerce_utf8 (coerce_utf8 s) = coerce_utf8 s"
proof (induction s rule: coerce_utf8.induct)
  case 1
  show ?case by simp
next
  case (2 c cs)
  let ?n = "utf8_width (c # cs)"
  show ?case
  proof (cases "?n = 0")
    case True
    have here: "coerce_utf8 (c # cs) = CHR 0xEF # CHR 0xBF # CHR 0xBD # coerce_utf8 cs"
      using True by simp
    from 2 True have IH: "coerce_utf8 (coerce_utf8 cs) = coerce_utf8 cs"
      by simp
    show ?thesis
      by (simp only: here coerce_utf8_replacement IH)
  next
    case False
    then have pos: "0 < ?n"
      by simp
    have "coerce_utf8 (c # cs) = take ?n (c # cs) @ coerce_utf8 (drop (?n - 1) cs)"
      using False by simp
    with coerce_utf8_rune [OF pos, of "coerce_utf8 (drop (?n - 1) cs)"] 2 show ?thesis
      by (simp del: coerce_utf8.simps(2))
  qed
qed

subsection \<open>Error responses\<close>

text \<open>What \<^verbatim>\<open>http.Error\<close> leaves in a response writer that nothing was written to.\<close>

lemma http_Error_fresh:
  "rw_status (http_Error new_ResponseWriter msg code) = Some code"
  "rw_body (http_Error new_ResponseWriter msg code) = [Text (msg @ [CHR 0x0A])]"
  by (simp_all add: http_Error_def new_ResponseWriter_def Header_Del_def Header_Set_def
        WriteHeader_def Write_def)

subsection \<open>Validation of the postal code (claim C1)\<close>

text \<open>
  Claim C1. In both services, a request with an empty postal code is answered with
  status 400 (bad request); one with a postal code that is not empty and does not match
  the pattern \<^verbatim>\<open>^[0-9]{5}-[0-9]{3}$\<close> is answered with status 422 (unprocessable
  entity), another status than 400; and a postal code that matches the pattern passes:
  the handler goes on to its processing part with that code. For the Edge the postal
  code is the field \<^verbatim>\<open>cep\<close> of the decoded body (\<open>r1\<close>), for the Orchestrator it is
  the query parameter \<^verbatim>\<open>cep\<close> (\<open>r2\<close>); a rejection by the Orchestrator leaves the
  state as it was.
\<close>

theorem C1_validation:
  assumes edge: "Decode ''Request'' set_app1_Request \<lparr>app1_Request.Cep = []\<rparr> (http_Request.Body r1) = Inr req"
      and orch: "URL r2 = Some u"
  shows
    "(app1_Request.Cep req = [] \<longrightarrow>
        rw_status (fst (app1_handler Getenv url_Parse app1 new_ResponseWriter r1)) = Some StatusBadRequest)
     \<and> (app1_Request.Cep req \<noteq> [] \<and> \<not> is_PostalCode (app1_Request.Cep req) \<longrightarrow>
        rw_status (fst (app1_handler Getenv url_Parse app1 new_ResponseWriter r1))
          = Some StatusUnprocessableEntity)
     \<and> (is_PostalCode (app1_Request.Cep req) \<longrightarrow>
        app1_handler Getenv url_Parse app1 w r1
          = app1_handler_process Getenv url_Parse app1 w (app1_Request.Cep req)
              (tracer_Start ''/weather-by-cep''))
     \<and> (Values_Get (URL_Query u) ''cep'' = [] \<longrightarrow>
        (\<exists>w'. app2_handler app2 new_ResponseWriter r2 s = Inr (w', s)
              \<and> rw_status w' = Some StatusBadRequest))
     \<and> (Values_Get (URL_Query u) ''cep'' \<noteq> [] \<and> \<not> is_PostalCode (Values_Get (URL_Query u) ''cep'') \<longrightarrow>
        (\<exists>w'. app2_handler app2 new_ResponseWriter r2 s = Inr (w', s)
              \<and> rw_status w' = Some StatusUnprocessableEntity))
     \<and> (is_PostalCode (Values_Get (URL_Query u) ''cep'') \<longrightarrow>
        app2_handler app2 w r2 s
          = Inr (app2_handler_resolve app2 w (Values_Get (URL_Query u) ''cep'') s))"
proof -
  have nonempty: "is_PostalCode c \<Longrightarrow> c \<noteq> []" for c
    by (auto simp: is_PostalCode_def)
  show ?thesis
    using edge orch nonempty
    by (auto simp: app1_handler_def app2_handler_def MatchString_cepRegex http_Error_fresh Let_def)
qed


theorem C1_validation_witness:
  "rw_status (fst (app1_handler (\<lambda>name. ''http://app2:8080'') (\<lambda>url. Inl (LibraryError ''parse''))
       \<lparr>app1_application.httpClient = (\<lambda>req. (Inl (LibraryError ''down''), []))\<rparr> new_ResponseWriter
       \<lparr>Method = ''POST'', URL = None,
        http_Request.Body = Inr (JObject [(''cep'', JString ''1234-567'')])\<rparr>))
     = Some StatusUnprocessableEntity
   \<and> (\<exists>w'. app2_handler
          \<lparr>viaCepClient = (\<lambda>cep s. (Inl viacep_ErrInternal, Suc s)),
           weatherApiClient = (\<lambda>city s. (Inl weatherapi_ErrInternal, Suc s)),
           logger = (\<lambda>line s. s)\<rparr>
          new_ResponseWriter
          \<lparr>Method = ''GET'',
           URL = Some \<lparr>Scheme = [], Host = [], Path = ''/get-weather-by-cep'', RawQuery = ''cep=''\<rparr>,
           http_Request.Body = Inl (LibraryError ''EOF'')\<rparr> (0::nat) = Inr (w', 0)
        \<and> rw_status w' = Some StatusBadRequest)"
proof -
  let ?r1 = "\<lparr>Method = ''POST'', URL = None,
        http_Request.Body = Inr (JObject [(''cep'', JString ''1234-567'')])\<rparr>"
  let ?u = "\<lparr>Scheme = [], Host = [], Path = ''/get-weather-by-cep'', RawQuery = ''cep=''\<rparr>"
  let ?r2 = "\<lparr>Method = ''GET'', URL = Some ?u, http_Request.Body = Inl (LibraryError ''EOF'')\<rparr>"
  have edge: "Decode ''Request'' set_app1_Request \<lparr>app1_Request.Cep = []\<rparr> (http_Request.Body ?r1)
                = Inr \<lparr>app1_Request.Cep = ''1234-567''\<rparr>"
    by code_simp
  have orch: "URL ?r2 = Some ?u"
    by simp
  have malformed: "app1_Request.Cep \<lparr>app1_Request.Cep = ''1234-567''\<rparr> \<noteq> []
                   \<and> \<not> is_PostalCode (app1_Request.Cep \<lparr>app1_Request.Cep = ''1234-567''\<rparr>)"
    by code_simp
  have empty: "Values_Get (URL_Query ?u) ''cep'' = []"
    by code_simp
  note inst = C1_validation [OF edge orch]
  show ?thesis
  proof (rule conjI)
    show "rw_status (fst (app1_handler (\<lambda>name. ''http://app2:8080'') (\<lambda>url. Inl (LibraryError ''parse''))
       \<lparr>app1_application.httpClient = (\<lambda>req. (Inl (LibraryError ''down''), []))\<rparr> new_ResponseWriter ?r1))
     = Some StatusUnprocessableEntity"
      by (rule mp [OF conjunct1 [OF conjunct2 [OF inst]] malformed])
  next
    show "\<exists>w'. app2_handler
          \<lparr>viaCepClient = (\<lambda>cep s. (Inl viacep_ErrInternal, Suc s)),
           weatherApiClient = (\<lambda>city s. (Inl weatherapi_ErrInternal, Suc s)),
           logger = (\<lambda>line s. s)\<rparr>
          new_ResponseWriter ?r2 (0::nat) = Inr (w', 0)
        \<and> rw_status w' = Some StatusBadRequest"
      by (rule mp [OF conjunct1 [OF conjunct2 [OF conjunct2 [OF conjunct2 [OF inst]]]] empty])
  qed
qed

subsection \<open>The Address Resolver (claims C2 and C6)\<close>

text \<open>
  Claim C2. When the request to the address API was built and the API answered,
  \<^verbatim>\<open>FindAddressByCep\<close> returns \<^verbatim>\<open>ErrCepNotFound\<close> when the status of the answer is
  outside 200..299, whatever the payload is, and it returns \<^verbatim>\<open>ErrCepNotFound\<close> when the
  status is inside 200..299 and the payload decodes with the flag \<^verbatim>\<open>erro\<close> set: the
  status and the flag are two channels, and each alone gives the error. This holds for
  every postal code, so for every postal code of the valid shape.
\<close>

theorem C2_FindAddressByCep_not_found:
  assumes req: "NewRequestWithContext url_Parse ''GET''
                  (viacep_Client.baseURL c @ ''/ws/'' @ cep @ ''/json/'') = Inr req"
      and resp: "viacep_Client.httpClient c req = (Inr resp, spans)"
  shows
    "(\<not> (200 \<le> StatusCode resp \<and> StatusCode resp < 300) \<longrightarrow>
        fst (FindAddressByCep url_Parse c cep) = Inl ErrCepNotFound)
     \<and> (200 \<le> StatusCode resp \<and> StatusCode resp < 300
          \<and> Decode ''ViaCepResponse'' set_ViaCepResponse ViaCepResponse_zero
                (http_Response.Body resp) = Inr data
          \<and> ViaCepResponse.Erro data \<longrightarrow>
        fst (FindAddressByCep url_Parse c cep) = Inl ErrCepNotFound)"
  using req resp by (auto simp: FindAddressByCep_def Let_def)

theorem C2_FindAddressByCep_not_found_witness:
  "fst (FindAddressByCep
          (\<lambda>url. Inr \<lparr>Scheme = ''https'', Host = ''viacep.com.br'', Path = ''/ws/99999-999/json/'',
                        RawQuery = []\<rparr>)
          (viacep_NewClient \<lparr>HTTPClientRequest = (\<lambda>r. []), HTTPClientResponse = (\<lambda>r. [])\<rparr>
             (\<lambda>req. Inr \<lparr>StatusCode = StatusNotFound, http_Response.Body = Inl (LibraryError ''EOF'')\<rparr>))
          ''99999-999'') = Inl ErrCepNotFound
   \<and> fst (FindAddressByCep
          (\<lambda>url. Inr \<lparr>Scheme = ''https'', Host = ''viacep.com.br'', Path = ''/ws/99999-999/json/'',
                        RawQuery = []\<rparr>)
          (viacep_NewClient \<lparr>HTTPClientRequest = (\<lambda>r. []), HTTPClientResponse = (\<lambda>r. [])\<rparr>
             (\<lambda>req. Inr \<lparr>StatusCode = StatusOK,
                            http_Response.Body = Inr (JObject [(''erro'', JBool True)])\<rparr>))
          ''99999-999'') = Inl ErrCepNotFound"
proof -
  let ?parse = "\<lambda>url :: string. Inr \<lparr>Scheme = ''https'', Host = ''viacep.com.br'',
                    Path = ''/ws/99999-999/json/'', RawQuery = []\<rparr> :: error + URL"
  let ?req = "\<lparr>Method = ''GET'',
               URL = Some \<lparr>Scheme = ''https'', Host = ''viacep.com.br'',
                            Path = ''/ws/99999-999/json/'', RawQuery = []\<rparr>,
               http_Request.Body = Inl (LibraryError ''EOF'')\<rparr>"
  let ?resp1 = "\<lparr>StatusCode = StatusNotFound, http_Response.Body = Inl (LibraryError ''EOF'')\<rparr>"
  let ?resp2 = "\<lparr>StatusCode = StatusOK,
                 http_Response.Body = Inr (JObject [(''erro'', JBool True)])\<rparr>"
  let ?sc = "\<lparr>HTTPClientRequest = (\<lambda>r. []), HTTPClientResponse = (\<lambda>r. [])\<rparr>"
  let ?c1 = "viacep_NewClient ?sc (\<lambda>req. Inr ?resp1)"
  let ?c2 = "viacep_NewClient ?sc (\<lambda>req. Inr ?resp2)"
  let ?sp = "\<lparr>span_name = ''HTTP GET'', attributes = [], events = []\<rparr>"
  let ?data = "\<lparr>ViaCepResponse.Cep = [], Street = [], City = [], State = [], Erro = True\<rparr>"
  have req1: "NewRequestWithContext ?parse ''GET''
                (viacep_Client.baseURL ?c1 @ ''/ws/'' @ ''99999-999'' @ ''/json/'') = Inr ?req"
    by (simp add: NewRequestWithContext_def)
  have req2: "NewRequestWithContext ?parse ''GET''
                (viacep_Client.baseURL ?c2 @ ''/ws/'' @ ''99999-999'' @ ''/json/'') = Inr ?req"
    by (simp add: NewRequestWithContext_def)
  have resp1: "viacep_Client.httpClient ?c1 ?req = (Inr ?resp1, [?sp])"
    by (simp add: viacep_NewClient_def Client_Do_def otelhttp_RoundTrip_def SetAttributes_def
          tracer_Start_def)
  have resp2: "viacep_Client.httpClient ?c2 ?req = (Inr ?resp2, [?sp])"
    by (simp add: viacep_NewClient_def Client_Do_def otelhttp_RoundTrip_def SetAttributes_def
          tracer_Start_def)
  have status: "\<not> (200 \<le> StatusCode ?resp1 \<and> StatusCode ?resp1 < 300)"
    by simp
  have flag: "200 \<le> StatusCode ?resp2 \<and> StatusCode ?resp2 < 300
          \<and> Decode ''ViaCepResponse'' set_ViaCepResponse ViaCepResponse_zero
                (http_Response.Body ?resp2) = Inr ?data
          \<and> ViaCepResponse.Erro ?data"
    by code_simp
  show ?thesis
  proof (rule conjI)
    show "fst (FindAddressByCep ?parse ?c1 ''99999-999'') = Inl ErrCepNotFound"
      by (rule mp [OF conjunct1 [OF C2_FindAddressByCep_not_found [OF req1 resp1]] status])
  next
    show "fst (FindAddressByCep ?parse ?c2 ''99999-999'') = Inl ErrCepNotFound"
      by (rule mp [OF conjunct2 [OF C2_FindAddressByCep_not_found [OF req2 resp2]] flag])
  qed
qed

text \<open>
  Claim C6, as amended. The claim says that every answer with a status in 200..299, a
  payload that decodes and the flag \<^verbatim>\<open>erro\<close> unset gives the address. The function
  compares the status with \<^verbatim>\<open>http.StatusOK\<close>: an answer with status 201 and such a
  payload gives \<^verbatim>\<open>ErrCepNotFound\<close>, as the last of the three theorems below
  computes. What holds is the claim for the status 200 alone: then
  \<^verbatim>\<open>FindAddressByCep\<close> returns the decoded address; and an answer with any other
  status, whatever its payload, gives \<^verbatim>\<open>ErrCepNotFound\<close>.
\<close>

theorem C6_FindAddressByCep_status_OK:
  assumes req: "NewRequestWithContext url_Parse ''GET''
                  (viacep_Client.baseURL c @ ''/ws/'' @ cep @ ''/json/'') = Inr req"
      and resp: "viacep_Client.httpClient c req = (Inr resp, spans)"
  shows
    "(StatusCode resp = StatusOK
        \<and> Decode ''ViaCepResponse'' set_ViaCepResponse ViaCepResponse_zero
              (http_Response.Body resp) = Inr data
        \<and> \<not> ViaCepResponse.Erro data \<longrightarrow>
      fst (FindAddressByCep url_Parse c cep) = Inr data)
     \<and> (StatusCode resp \<noteq> StatusOK \<longrightarrow>
          fst (FindAddressByCep url_Parse c cep) = Inl ErrCepNotFound)"
  using req resp by (simp add: FindAddressByCep_def Let_def)

theorem C6_FindAddressByCep_status_OK_witness:
  "fst (FindAddressByCep
          (\<lambda>url. Inr \<lparr>Scheme = ''https'', Host = ''viacep.com.br'', Path = ''/ws/01001-000/json/'',
                        RawQuery = []\<rparr>)
          (viacep_NewClient \<lparr>HTTPClientRequest = (\<lambda>r. []), HTTPClientResponse = (\<lambda>r. [])\<rparr>
             (\<lambda>req. Inr \<lparr>StatusCode = StatusOK, http_Response.Body =
                Inr (JObject [(''cep'', JString ''01001-000''),
                              (''localidade'', JString ''Sao Paulo'')])\<rparr>))
          ''01001-000'')
     = Inr \<lparr>ViaCepResponse.Cep = ''01001-000'', Street = [], City = ''Sao Paulo'', State = [],
             Erro = False\<rparr>
   \<and> fst (FindAddressByCep
          (\<lambda>url. Inr \<lparr>Scheme = ''https'', Host = ''viacep.com.br'', Path = ''/ws/01001-000/json/'',
                        RawQuery = []\<rparr>)
          (viacep_NewClient \<lparr>HTTPClientRequest = (\<lambda>r. []), HTTPClientResponse = (\<lambda>r. [])\<rparr>
             (\<lambda>req. Inr \<lparr>StatusCode = 202, http_Response.Body =
                Inr (JObject [(''cep'', JString ''01001-000''),
                              (''localidade'', JString ''Sao Paulo'')])\<rparr>))
          ''01001-000'')
     = Inl ErrCepNotFound"
proof -
  let ?parse = "\<lambda>url :: string. Inr \<lparr>Scheme = ''https'', Host = ''viacep.com.br'',
                    Path = ''/ws/01001-000/json/'', RawQuery = []\<rparr> :: error + URL"
  let ?req = "\<lparr>Method = ''GET'',
               URL = Some \<lparr>Scheme = ''https'', Host = ''viacep.com.br'',
                            Path = ''/ws/01001-000/json/'', RawQuery = []\<rparr>,
               http_Request.Body = Inl (LibraryError ''EOF'')\<rparr>"
  let ?doc = "JObject [(''cep'', JString ''01001-000''), (''localidade'', JString ''Sao Paulo'')]"
  let ?resp = "\<lparr>StatusCode = StatusOK, http_Response.Body = Inr ?doc\<rparr>"
  let ?resp202 = "\<lparr>StatusCode = 202, http_Response.Body = Inr ?doc\<rparr>"
  let ?sc = "\<lparr>HTTPClientRequest = (\<lambda>r. []), HTTPClientResponse = (\<lambda>r. [])\<rparr>"
  let ?c = "viacep_NewClient ?sc (\<lambda>req. Inr ?resp)"
  let ?c202 = "viacep_NewClient ?sc (\<lambda>req. Inr ?resp202)"
  let ?sp = "\<lparr>span_name = ''HTTP GET'', attributes = [], events = []\<rparr>"
  let ?data = "\<lparr>ViaCepResponse.Cep = ''01001-000'', Street = [], City = ''Sao Paulo'', State = [],
             Erro = False\<rparr>"
  have req: "NewRequestWithContext ?parse ''GET''
                (viacep_Client.baseURL ?c @ ''/ws/'' @ ''01001-000'' @ ''/json/'') = Inr ?req"
    by (simp add: NewRequestWithContext_def)
  have req202: "NewRequestWithContext ?parse ''GET''
                (viacep_Client.baseURL ?c202 @ ''/ws/'' @ ''01001-000'' @ ''/json/'') = Inr ?req"
    by (simp add: NewRequestWithContext_def)
  have resp: "viacep_Client.httpClient ?c ?req = (Inr ?resp, [?sp])"
    by (simp add: viacep_NewClient_def Client_Do_def otelhttp_RoundTrip_def SetAttributes_def
          tracer_Start_def)
  have resp202: "viacep_Client.httpClient ?c202 ?req = (Inr ?resp202, [?sp])"
    by (simp add: viacep_NewClient_def Client_Do_def otelhttp_RoundTrip_def SetAttributes_def
          tracer_Start_def)
  have ok: "StatusCode ?resp = StatusOK
        \<and> Decode ''ViaCepResponse'' set_ViaCepResponse ViaCepResponse_zero
              (http_Response.Body ?resp) = Inr ?data
        \<and> \<not> ViaCepResponse.Erro ?data"
    by code_simp
  have accepted: "StatusCode ?resp202 \<noteq> StatusOK"
    by simp
  show ?thesis
  proof (rule conjI)
    show "fst (FindAddressByCep ?parse ?c ''01001-000'') = Inr ?data"
      by (rule mp [OF conjunct1 [OF C6_FindAddressByCep_status_OK [OF req resp]] ok])
  next
    show "fst (FindAddressByCep ?parse ?c202 ''01001-000'') = Inl ErrCepNotFound"
      by (rule mp [OF conjunct2 [OF C6_FindAddressByCep_status_OK [OF req202 resp202]] accepted])
  qed
qed

theorem C6_FindAddressByCep_status_201_counterexample:
  "200 \<le> StatusCode \<lparr>StatusCode = 201, http_Response.Body =
        Inr (JObject [(''cep'', JString ''01001-000''), (''localidade'', JString ''Sao Paulo'')])\<rparr>
   \<and> StatusCode \<lparr>StatusCode = 201, http_Response.Body =
        Inr (JObject [(''cep'', JString ''01001-000''), (''localidade'', JString ''Sao Paulo'')])\<rparr> < 300
   \<and> Decode ''ViaCepResponse'' set_ViaCepResponse ViaCepResponse_zero
        (Inr (JObject [(''cep'', JString ''01001-000''), (''localidade'', JString ''Sao Paulo'')]))
      = Inr \<lparr>ViaCepResponse.Cep = ''01001-000'', Street = [], City = ''Sao Paulo'', State = [],
             Erro = False\<rparr>
   \<and> fst (FindAddressByCep
          (\<lambda>url. Inr \<lparr>Scheme = ''https'', Host = ''viacep.com.br'', Path = ''/ws/01001-000/json/'',
                        RawQuery = []\<rparr>)
          (viacep_NewClient \<lparr>HTTPClientRequest = (\<lambda>r. []), HTTPClientResponse = (\<lambda>r. [])\<rparr>
             (\<lambda>req. Inr \<lparr>StatusCode = 201, http_Response.Body =
                Inr (JObject [(''cep'', JString ''01001-000''),
                              (''localidade'', JString ''Sao Paulo'')])\<rparr>))
          ''01001-000'') = Inl ErrCepNotFound"
  by code_simp

subsection \<open>The Weather Resolver and the flag erro (claim C10)\<close>

text \<open>
  Claim C10. \<^verbatim>\<open>WeatherApiResponse\<close> has a field \<^verbatim>\<open>Erro\<close> that \<^verbatim>\<open>Decode\<close> fills,
  and \<^verbatim>\<open>FindTemperatureByCity\<close> never reads it: whenever the request was built, the
  weather API answered with status 200 and the payload decodes, the function returns the
  decoded value, whatever its \<^verbatim>\<open>Erro\<close> is. The instance after the theorem is an
  answer with \<^verbatim>\<open>"erro": true\<close>.
\<close>

theorem C10_FindTemperatureByCity_ignores_erro:
  assumes base: "url_Parse (weatherapi_Client.baseURL c) = Inr u"
      and req: "NewRequestWithContext url_Parse ''GET''
                  (URL_String (u\<lparr>Path := Path u @ ''/current.json'',
                     RawQuery := Values_Encode
                       (Values_Add (Values_Add [] ''key'' (apiKey c)) ''q'' city)\<rparr>)) = Inr req"
      and resp: "weatherapi_Client.httpClient c req = (Inr resp, spans)"
      and ok: "StatusCode resp = StatusOK"
      and decoded: "Decode ''WeatherApiResponse'' set_WeatherApiResponse WeatherApiResponse_zero
                      (http_Response.Body resp) = Inr data"
  shows "fst (FindTemperatureByCity url_Parse c city) = Inr data"
  using assms by (simp add: FindTemperatureByCity_def Let_def)

theorem C10_FindTemperatureByCity_ignores_erro_witness:
  "fst (FindTemperatureByCity
          (\<lambda>url. Inr \<lparr>Scheme = ''https'', Host = ''api.weatherapi.com'', Path = ''/v1'',
                        RawQuery = []\<rparr>)
          (weatherapi_NewClient \<lparr>HTTPClientRequest = (\<lambda>r. []), HTTPClientResponse = (\<lambda>r. [])\<rparr>
             (\<lambda>req. Inr \<lparr>StatusCode = StatusOK, http_Response.Body =
                Inr (JObject [(''current'', JObject [(''temp_c'', JNumber (Finite (51 / 2))),
                                                    (''temp_f'', JNumber (Finite (2740862585720013 / 35184372088832)))]),
                              (''erro'', JBool True)])\<rparr>)
             ''SECRET'')
          ''Sao Paulo'')
     = Inr \<lparr>Current = \<lparr>CurrentWeather.TempC = Finite (51 / 2), TempF = Finite (2740862585720013 / 35184372088832)\<rparr>,
            Erro = True\<rparr>"
proof -
  let ?u = "\<lparr>Scheme = ''https'', Host = ''api.weatherapi.com'', Path = ''/v1'', RawQuery = []\<rparr>"
  let ?parse = "\<lambda>url :: string. Inr ?u :: error + URL"
  let ?req = "\<lparr>Method = ''GET'', URL = Some ?u, http_Request.Body = Inl (LibraryError ''EOF'')\<rparr>"
  let ?resp = "\<lparr>StatusCode = StatusOK, http_Response.Body =
                Inr (JObject [(''current'', JObject [(''temp_c'', JNumber (Finite (51 / 2))),
                                                    (''temp_f'', JNumber (Finite (2740862585720013 / 35184372088832)))]),
                              (''erro'', JBool True)])\<rparr>"
  let ?sc = "\<lparr>HTTPClientRequest = (\<lambda>r. []), HTTPClientResponse = (\<lambda>r. [])\<rparr>"
  let ?c = "weatherapi_NewClient ?sc (\<lambda>req. Inr ?resp) ''SECRET''"
  let ?sp = "\<lparr>span_name = ''HTTP GET'', attributes = [], events = []\<rparr>"
  let ?data = "\<lparr>Current = \<lparr>CurrentWeather.TempC = Finite (51 / 2), TempF = Finite (2740862585720013 / 35184372088832)\<rparr>,
            Erro = True\<rparr>"
  have base: "?parse (weatherapi_Client.baseURL ?c) = Inr ?u"
    by simp
  have req: "NewRequestWithContext ?parse ''GET''
                  (URL_String (?u\<lparr>Path := Path ?u @ ''/current.json'',
                     RawQuery := Values_Encode
                       (Values_Add (Values_Add [] ''key'' (apiKey ?c)) ''q'' ''Sao Paulo'')\<rparr>))
               = Inr ?req"
    by (simp add: NewRequestWithContext_def)
  have resp: "weatherapi_Client.httpClient ?c ?req = (Inr ?resp, [?sp])"
    by code_simp
  have ok: "StatusCode ?resp = StatusOK"
    by simp
  have decoded: "Decode ''WeatherApiResponse'' set_WeatherApiResponse WeatherApiResponse_zero
                      (http_Response.Body ?resp) = Inr ?data"
    by code_simp
  show ?thesis
    by (rule C10_FindTemperatureByCity_ignores_erro [OF base req resp ok decoded])
qed

subsection \<open>The Orchestrator's handler (claims C3, C9 and C5)\<close>

text \<open>
  The handler by cases: the validation rejects, the Address Resolver fails, the Weather
  Resolver fails, both succeed.
\<close>

lemma is_PostalCode_nonempty: "is_PostalCode c \<Longrightarrow> c \<noteq> []"
  by (auto simp: is_PostalCode_def)

lemma app2_handler_valid:
  assumes "URL r = Some u" and "is_PostalCode (Values_Get (URL_Query u) ''cep'')"
  shows "app2_handler app w r s
           = Inr (app2_handler_resolve app w (Values_Get (URL_Query u) ''cep'') s)"
  using assms is_PostalCode_nonempty
  by (auto simp: app2_handler_def MatchString_cepRegex Let_def)

lemma app2_handler_invalid:
  assumes "URL r = Some u"
      and "Values_Get (URL_Query u) ''cep'' = [] \<or> \<not> is_PostalCode (Values_Get (URL_Query u) ''cep'')"
  shows "\<exists>m c. app2_handler app w r s = Inr (http_Error w m c, s)"
  using assms by (auto simp: app2_handler_def MatchString_cepRegex Let_def)

lemma resolve_address_error:
  assumes "viaCepClient app cep s = (Inl err, s1)"
  shows "fst (app2_handler_resolve app w cep s) =
           (if err = ErrCepNotFound then http_Error w (Error ErrCepNotFound) StatusNotFound
            else http_Error w InternalErrorMessage StatusInternalServerError)"
  using assms by (simp add: app2_handler_resolve_def)

lemma resolve_weather_error:
  assumes "viaCepClient app cep s = (Inr address, s1)"
      and "weatherApiClient app (ViaCepResponse.City address) s1 = (Inl err, s2)"
  shows "fst (app2_handler_resolve app w cep s) =
           http_Error w InternalErrorMessage StatusInternalServerError"
  using assms by (simp add: app2_handler_resolve_def)

lemma resolve_success:
  assumes "viaCepClient app cep s = (Inr address, s1)"
      and "weatherApiClient app (ViaCepResponse.City address) s1 = (Inr weather, s2)"
  shows "app2_handler_resolve app w cep s =
           (Encode (Header_Set w ''Content-Type'' ''application/json'')
              (marshal_app2_response
                 \<lparr>app2_response.City = ViaCepResponse.City address,
                  TempC = CurrentWeather.TempC (Current weather),
                  TempF = CurrentWeather.TempF (Current weather),
                  TempK = f64_add (CurrentWeather.TempC (Current weather))
                            (f64_round (27315 / 100))\<rparr>), s2)"
  using assms by (simp add: app2_handler_resolve_def)

lemma Encode_fresh:
  "rw_body (Encode (Header_Set new_ResponseWriter k v) (Inr d)) = [Json d]"
  "rw_body (Encode (Header_Set new_ResponseWriter k v) (Inl e)) = []"
  "rw_status (Encode (Header_Set new_ResponseWriter k v) (Inr d)) = Some StatusOK"
  by (simp_all add: Encode_def Write_def WriteHeader_def Header_Set_def new_ResponseWriter_def)

lemma encode_float64_Inr: "encode_float64 x = Inr j \<Longrightarrow> j = JNumber x"
  by (cases x) auto

lemma marshal_app2_response_Inr:
  assumes "marshal_app2_response r = Inr d"
  shows "d = JObject [(''city'', JString (coerce_utf8 (app2_response.City r))),
                      (''temp_C'', JNumber (app2_response.TempC r)),
                      (''temp_F'', JNumber (app2_response.TempF r)),
                      (''temp_K'', JNumber (app2_response.TempK r))]"
  using assms
  by (auto simp: marshal_app2_response_def split: sum.splits dest!: encode_float64_Inr)

text \<open>
  Claim C3. For a request with a valid postal code: when the Address Resolver returns
  \<^verbatim>\<open>ErrCepNotFound\<close> the response has status 404; when it returns any other error
  (its \<^verbatim>\<open>ErrInternal\<close> is one), and when the Weather Resolver returns any error at
  all (its \<^verbatim>\<open>ErrCityNotFound\<close> is one), the response has status 500 and its body is
  the line \<^verbatim>\<open>InternalErrorMessage\<close>, the same for every error: the text of the cause
  is not in it.
\<close>

theorem C3_orchestrator_error_mapping:
  assumes url: "URL r = Some u"
      and valid: "is_PostalCode (Values_Get (URL_Query u) ''cep'')"
  shows
    "(viaCepClient app (Values_Get (URL_Query u) ''cep'') s = (Inl ErrCepNotFound, s1) \<longrightarrow>
        (\<exists>w' s'. app2_handler app new_ResponseWriter r s = Inr (w', s')
           \<and> rw_status w' = Some StatusNotFound))
     \<and> (viaCepClient app (Values_Get (URL_Query u) ''cep'') s = (Inl err, s1)
          \<and> err \<noteq> ErrCepNotFound \<longrightarrow>
        (\<exists>w' s'. app2_handler app new_ResponseWriter r s = Inr (w', s')
           \<and> rw_status w' = Some StatusInternalServerError
           \<and> rw_body w' = [Text (InternalErrorMessage @ [CHR 0x0A])]))
     \<and> (viaCepClient app (Values_Get (URL_Query u) ''cep'') s = (Inr address, s1)
          \<and> weatherApiClient app (ViaCepResponse.City address) s1 = (Inl err, s2) \<longrightarrow>
        (\<exists>w' s'. app2_handler app new_ResponseWriter r s = Inr (w', s')
           \<and> rw_status w' = Some StatusInternalServerError
           \<and> rw_body w' = [Text (InternalErrorMessage @ [CHR 0x0A])]))"
proof -
  let ?cep = "Values_Get (URL_Query u) ''cep''"
  let ?res = "app2_handler_resolve app new_ResponseWriter ?cep s"
  have run: "app2_handler app new_ResponseWriter r s = Inr (fst ?res, snd ?res)"
    by (simp add: app2_handler_valid [OF url valid])
  have not_found: "rw_status (fst ?res) = Some StatusNotFound"
    if "viaCepClient app ?cep s = (Inl ErrCepNotFound, s1)"
    using resolve_address_error [OF that] by (simp add: http_Error_fresh)
  have internal: "rw_status (fst ?res) = Some StatusInternalServerError
                  \<and> rw_body (fst ?res) = [Text (InternalErrorMessage @ [CHR 0x0A])]"
    if "viaCepClient app ?cep s = (Inl err, s1)" "err \<noteq> ErrCepNotFound"
    using resolve_address_error [OF that(1)] that(2) by (simp add: http_Error_fresh)
  have weather: "rw_status (fst ?res) = Some StatusInternalServerError
                  \<and> rw_body (fst ?res) = [Text (InternalErrorMessage @ [CHR 0x0A])]"
    if "viaCepClient app ?cep s = (Inr address, s1)"
       "weatherApiClient app (ViaCepResponse.City address) s1 = (Inl err, s2)"
    using resolve_weather_error [OF that] by (simp add: http_Error_fresh)
  from run not_found internal weather show ?thesis
    by blast
qed

theorem C3_orchestrator_error_mapping_witness:
  "(\<exists>w' s'. app2_handler
        \<lparr>viaCepClient = (\<lambda>cep s. (Inl viacep_ErrInternal, Suc s)),
         weatherApiClient = (\<lambda>city s. (Inl ErrCityNotFound, Suc s)),
         logger = (\<lambda>line s. s)\<rparr>
        new_ResponseWriter
        \<lparr>Method = ''GET'',
         URL = Some \<lparr>Scheme = [], Host = [], Path = ''/get-weather-by-cep'',
                     RawQuery = ''cep=01001-000''\<rparr>,
         http_Request.Body = Inl (LibraryError ''EOF'')\<rparr> (0::nat) = Inr (w', s')
      \<and> rw_status w' = Some StatusInternalServerError
      \<and> rw_body w' = [Text (InternalErrorMessage @ [CHR 0x0A])])
   \<and> (\<exists>w' s'. app2_handler
        \<lparr>viaCepClient = (\<lambda>cep s.
           (Inr \<lparr>ViaCepResponse.Cep = cep, Street = [], City = ''Sao Paulo'', State = ''SP'',
                  Erro = False\<rparr>, Suc s)),
         weatherApiClient = (\<lambda>city s. (Inl ErrCityNotFound, Suc s)),
         logger = (\<lambda>line s. s)\<rparr>
        new_ResponseWriter
        \<lparr>Method = ''GET'',
         URL = Some \<lparr>Scheme = [], Host = [], Path = ''/get-weather-by-cep'',
                     RawQuery = ''cep=01001-000''\<rparr>,
         http_Request.Body = Inl (LibraryError ''EOF'')\<rparr> (0::nat) = Inr (w', s')
      \<and> rw_status w' = Some StatusInternalServerError
      \<and> rw_body w' = [Text (InternalErrorMessage @ [CHR 0x0A])])"
proof -
  let ?u = "\<lparr>Scheme = [], Host = [], Path = ''/get-weather-by-cep'', RawQuery = ''cep=01001-000''\<rparr>"
  let ?r = "\<lparr>Method = ''GET'', URL = Some ?u, http_Request.Body = Inl (LibraryError ''EOF'')\<rparr>"
  let ?address = "\<lparr>ViaCepResponse.Cep = ''01001-000'', Street = [], City = ''Sao Paulo'',
                   State = ''SP'', Erro = False\<rparr>"
  let ?app1 = "\<lparr>viaCepClient = (\<lambda>cep s. (Inl viacep_ErrInternal, Suc s)),
         weatherApiClient = (\<lambda>city s. (Inl ErrCityNotFound, Suc s)),
         logger = (\<lambda>line s :: nat. s)\<rparr>"
  let ?app2 = "\<lparr>viaCepClient = (\<lambda>cep s.
           (Inr \<lparr>ViaCepResponse.Cep = cep, Street = [], City = ''Sao Paulo'', State = ''SP'',
                  Erro = False\<rparr>, Suc s)),
         weatherApiClient = (\<lambda>city s. (Inl ErrCityNotFound, Suc s)),
         logger = (\<lambda>line s :: nat. s)\<rparr>"
  have url: "URL ?r = Some ?u"
    by simp
  have cep: "Values_Get (URL_Query ?u) ''cep'' = ''01001-000''"
    by code_simp
  have valid: "is_PostalCode (Values_Get (URL_Query ?u) ''cep'')"
    unfolding cep by code_simp
  have address_fails:
    "viaCepClient ?app1 (Values_Get (URL_Query ?u) ''cep'') 0 = (Inl viacep_ErrInternal, 1)
     \<and> viacep_ErrInternal \<noteq> ErrCepNotFound"
    by simp
  have weather_fails:
    "viaCepClient ?app2 (Values_Get (URL_Query ?u) ''cep'') 0 = (Inr ?address, 1)
     \<and> weatherApiClient ?app2 (ViaCepResponse.City ?address) 1 = (Inl ErrCityNotFound, 2)"
    unfolding cep by simp
  note inst = C3_orchestrator_error_mapping [OF url valid]
  show ?thesis
  proof (rule conjI)
    show "\<exists>w' s'. app2_handler ?app1 new_ResponseWriter ?r (0::nat) = Inr (w', s')
      \<and> rw_status w' = Some StatusInternalServerError
      \<and> rw_body w' = [Text (InternalErrorMessage @ [CHR 0x0A])]"
      by (rule mp [OF conjunct1 [OF conjunct2 [OF inst]] address_fails])
  next
    show "\<exists>w' s'. app2_handler ?app2 new_ResponseWriter ?r (0::nat) = Inr (w', s')
      \<and> rw_status w' = Some StatusInternalServerError
      \<and> rw_body w' = [Text (InternalErrorMessage @ [CHR 0x0A])]"
      by (rule mp [OF conjunct2 [OF conjunct2 [OF inst]] weather_fails])
  qed
qed

text \<open>
  Claim C9. The handler run with the traced clients answers as the handler itself does,
  and the log of the calls is: empty when the validation rejects the postal code; the
  call of the Address Resolver alone when that resolver returns an error; and otherwise
  the call of the Address Resolver followed by the call of the Weather Resolver, whose
  argument is the field \<^verbatim>\<open>City\<close> of the address just resolved.
\<close>

theorem C9_sequential_fail_fast:
  assumes url: "URL r = Some u"
  shows
    "\<exists>w' s'. app2_handler app w r s = Inr (w', s')
       \<and> app2_handler (traced app) w r (s, []) =
           Inr (w', s',
                (let cep = Values_Get (URL_Query u) ''cep''
                 in if cep = [] \<or> \<not> is_PostalCode cep then []
                    else (case viaCepClient app cep s of
                            (Inl err, s1) \<Rightarrow> [Call_FindAddressByCep cep]
                          | (Inr address, s1) \<Rightarrow>
                              [Call_FindAddressByCep cep,
                               Call_FindTemperatureByCity (ViaCepResponse.City address)])))"
  using url
  by (auto simp: app2_handler_def app2_handler_resolve_def traced_def MatchString_cepRegex
        Let_def split: prod.splits sum.splits)

theorem C9_sequential_fail_fast_witness:
  "\<exists>w' s'. app2_handler
        (traced \<lparr>viaCepClient = (\<lambda>cep s.
           (Inr \<lparr>ViaCepResponse.Cep = cep, Street = [], City = ''Sao Paulo'', State = ''SP'',
                  Erro = False\<rparr>, Suc s)),
         weatherApiClient = (\<lambda>city s. (Inl ErrCityNotFound, Suc s)),
         logger = (\<lambda>line s. s)\<rparr>)
        new_ResponseWriter
        \<lparr>Method = ''GET'',
         URL = Some \<lparr>Scheme = [], Host = [], Path = ''/get-weather-by-cep'',
                     RawQuery = ''cep=01001-000''\<rparr>,
         http_Request.Body = Inl (LibraryError ''EOF'')\<rparr> (0::nat, [])
      = Inr (w', s', [Call_FindAddressByCep ''01001-000'', Call_FindTemperatureByCity ''Sao Paulo''])"
proof -
  let ?u = "\<lparr>Scheme = [], Host = [], Path = ''/get-weather-by-cep'', RawQuery = ''cep=01001-000''\<rparr>"
  let ?r = "\<lparr>Method = ''GET'', URL = Some ?u, http_Request.Body = Inl (LibraryError ''EOF'')\<rparr>"
  let ?app = "\<lparr>viaCepClient = (\<lambda>cep s.
           (Inr \<lparr>ViaCepResponse.Cep = cep, Street = [], City = ''Sao Paulo'', State = ''SP'',
                  Erro = False\<rparr>, Suc s)),
         weatherApiClient = (\<lambda>city s. (Inl ErrCityNotFound, Suc s)),
         logger = (\<lambda>line s :: nat. s)\<rparr>"
  have url: "URL ?r = Some ?u"
    by simp
  have calls: "(let cep = Values_Get (URL_Query ?u) ''cep''
                 in if cep = [] \<or> \<not> is_PostalCode cep then []
                    else (case viaCepClient ?app cep 0 of
                            (Inl err, s1) \<Rightarrow> [Call_FindAddressByCep cep]
                          | (Inr address, s1) \<Rightarrow>
                              [Call_FindAddressByCep cep,
                               Call_FindTemperatureByCity (ViaCepResponse.City address)]))
               = [Call_FindAddressByCep ''01001-000'', Call_FindTemperatureByCity ''Sao Paulo'']"
    by code_simp
  from C9_sequential_fail_fast [OF url, of ?app new_ResponseWriter 0]
  obtain w' s' where
    "app2_handler (traced ?app) new_ResponseWriter ?r (0, []) =
       Inr (w', s', [Call_FindAddressByCep ''01001-000'', Call_FindTemperatureByCity ''Sao Paulo''])"
    unfolding calls by (elim exE conjE)
  then show ?thesis
    by (intro exI)
qed

text \<open>
  The successful response. When the postal code is valid, both resolvers succeed and the
  three temperatures are finite, the handler answers with status 200 and one JSON
  document; and whenever the handler answers with a JSON document, both resolvers have
  succeeded and the document is that one.
\<close>

lemma app2_handler_success:
  assumes url: "URL r = Some u"
      and valid: "is_PostalCode (Values_Get (URL_Query u) ''cep'')"
      and address: "viaCepClient app (Values_Get (URL_Query u) ''cep'') s = (Inr address, s1)"
      and weather: "weatherApiClient app (ViaCepResponse.City address) s1 = (Inr weather, s2)"
      and celsius: "CurrentWeather.TempC (Current weather) = Finite c"
      and fahrenheit: "CurrentWeather.TempF (Current weather) = Finite f"
      and kelvin: "f64_add (Finite c) (f64_round (27315 / 100)) = Finite k"
  shows "app2_handler app new_ResponseWriter r s =
           Inr (\<lparr>rw_header = [(''Content-Type'', [''application/json''])],
                 rw_status = Some StatusOK,
                 rw_body = [Json (JObject
                   [(''city'', JString (coerce_utf8 (ViaCepResponse.City address))),
                    (''temp_C'', JNumber (Finite c)),
                    (''temp_F'', JNumber (Finite f)),
                    (''temp_K'', JNumber (f64_add (Finite c) (f64_round (27315 / 100))))])]\<rparr>,
                s2)"
proof -
  have "marshal_app2_response
          \<lparr>app2_response.City = ViaCepResponse.City address,
           TempC = CurrentWeather.TempC (Current weather),
           TempF = CurrentWeather.TempF (Current weather),
           TempK = f64_add (CurrentWeather.TempC (Current weather)) (f64_round (27315 / 100))\<rparr>
        = Inr (JObject
                   [(''city'', JString (coerce_utf8 (ViaCepResponse.City address))),
                    (''temp_C'', JNumber (Finite c)),
                    (''temp_F'', JNumber (Finite f)),
                    (''temp_K'', JNumber (f64_add (Finite c) (f64_round (27315 / 100))))])"
    using kelvin by (simp add: marshal_app2_response_def celsius fahrenheit)
  then show ?thesis
    unfolding app2_handler_valid [OF url valid] resolve_success [OF address weather]
    by (simp add: Encode_def Write_def WriteHeader_def Header_Set_def new_ResponseWriter_def)
qed

lemma app2_handler_document:
  assumes url: "URL r = Some u"
      and run: "app2_handler app new_ResponseWriter r s = Inr (w', s')"
      and body: "rw_body w' = [Json doc]"
  shows "\<exists>address weather s1 s2.
        viaCepClient app (Values_Get (URL_Query u) ''cep'') s = (Inr address, s1)
        \<and> weatherApiClient app (ViaCepResponse.City address) s1 = (Inr weather, s2)
        \<and> doc = JObject
            [(''city'', JString (coerce_utf8 (ViaCepResponse.City address))),
             (''temp_C'', JNumber (CurrentWeather.TempC (Current weather))),
             (''temp_F'', JNumber (CurrentWeather.TempF (Current weather))),
             (''temp_K'', JNumber (f64_add (CurrentWeather.TempC (Current weather))
                                     (f64_round (27315 / 100))))]"
proof -
  let ?cep = "Values_Get (URL_Query u) ''cep''"
  have text_body: "rw_body (http_Error new_ResponseWriter m c) \<noteq> [Json doc]" for m c
    by (simp add: http_Error_fresh)
  have resolve: "app2_handler_resolve app new_ResponseWriter ?cep s = (w', s')"
  proof (cases "?cep = [] \<or> \<not> is_PostalCode ?cep")
    case True
    from app2_handler_invalid [OF url True, of app new_ResponseWriter s] run
    obtain m c where "w' = http_Error new_ResponseWriter m c"
      by auto
    with body text_body show ?thesis
      by simp
  next
    case False
    then have "is_PostalCode ?cep"
      by simp
    from app2_handler_valid [OF url this, of app new_ResponseWriter s] run show ?thesis
      by simp
  qed
  obtain ra s1 where via: "viaCepClient app ?cep s = (ra, s1)"
    by (cases "viaCepClient app ?cep s")
  show ?thesis
  proof (cases ra)
    case (Inl err)
    with via have "viaCepClient app ?cep s = (Inl err, s1)"
      by simp
    from resolve_address_error [OF this, of new_ResponseWriter] resolve body text_body
    show ?thesis
      by (simp split: if_splits)
  next
    case (Inr address)
    obtain rw s2 where wea: "weatherApiClient app (ViaCepResponse.City address) s1 = (rw, s2)"
      by (cases "weatherApiClient app (ViaCepResponse.City address) s1")
    show ?thesis
    proof (cases rw)
      case (Inl err)
      with via Inr wea have "viaCepClient app ?cep s = (Inr address, s1)"
        and "weatherApiClient app (ViaCepResponse.City address) s1 = (Inl err, s2)"
        by simp_all
      from resolve_weather_error [OF this, of new_ResponseWriter] resolve body text_body
      show ?thesis
        by simp
    next
      case weather: (Inr weather)
      let ?response = "\<lparr>app2_response.City = ViaCepResponse.City address,
                       TempC = CurrentWeather.TempC (Current weather),
                       TempF = CurrentWeather.TempF (Current weather),
                       TempK = f64_add (CurrentWeather.TempC (Current weather))
                                 (f64_round (27315 / 100))\<rparr>"
      from via Inr wea weather have "viaCepClient app ?cep s = (Inr address, s1)"
        and "weatherApiClient app (ViaCepResponse.City address) s1 = (Inr weather, s2)"
        by simp_all
      from resolve_success [OF this, of new_ResponseWriter] resolve
      have w': "w' = Encode (Header_Set new_ResponseWriter ''Content-Type'' ''application/json'')
                       (marshal_app2_response ?response)"
        by simp
      have "marshal_app2_response ?response = Inr doc"
      proof (cases "marshal_app2_response ?response")
        case (Inl e)
        with w' body show ?thesis by (simp add: Encode_fresh)
      next
        case (Inr d)
        with w' body show ?thesis by (simp add: Encode_fresh)
      qed
      from marshal_app2_response_Inr [OF this] via Inr wea weather show ?thesis
        by simp
    qed
  qed
qed

text \<open>
  Claim C5. For a request with a valid postal code for which both resolvers succeed with
  finite temperatures (\<^verbatim>\<open>temp_K\<close> included), the handler answers with status 200 and
  one JSON document, whose members are \<^verbatim>\<open>city\<close>, \<^verbatim>\<open>temp_C\<close>, \<^verbatim>\<open>temp_F\<close> and
  \<^verbatim>\<open>temp_K\<close>: the first three are what the resolvers returned, and \<^verbatim>\<open>temp_K\<close> is the
  \<^verbatim>\<open>float64\<close> sum of \<^verbatim>\<open>temp_C\<close> and the constant \<^verbatim>\<open>273.15\<close>. Conversely, whenever
  the handler answers with a JSON document, both resolvers have succeeded and the
  document is that one: no other response carries a \<^verbatim>\<open>temp_K\<close>. For 25.5 degrees
  Celsius the sum is a finite value within \<open>10\<^sup>-\<^sup>9\<close> of 298.65; it is the \<^verbatim>\<open>float64\<close>
  value nearest to 298.65.
\<close>

theorem C5_kelvin:
  assumes url: "URL r = Some u"
  shows
    "(is_PostalCode (Values_Get (URL_Query u) ''cep'')
        \<and> viaCepClient app (Values_Get (URL_Query u) ''cep'') s = (Inr address, s1)
        \<and> weatherApiClient app (ViaCepResponse.City address) s1 = (Inr weather, s2)
        \<and> CurrentWeather.TempC (Current weather) = Finite c
        \<and> CurrentWeather.TempF (Current weather) = Finite f
        \<and> f64_add (Finite c) (f64_round (27315 / 100)) = Finite k \<longrightarrow>
      app2_handler app new_ResponseWriter r s =
        Inr (\<lparr>rw_header = [(''Content-Type'', [''application/json''])],
              rw_status = Some StatusOK,
              rw_body = [Json (JObject
                [(''city'', JString (coerce_utf8 (ViaCepResponse.City address))),
                 (''temp_C'', JNumber (Finite c)),
                 (''temp_F'', JNumber (Finite f)),
                 (''temp_K'', JNumber (f64_add (Finite c) (f64_round (27315 / 100))))])]\<rparr>,
             s2))
     \<and> (app2_handler app new_ResponseWriter r s = Inr (w', s') \<and> rw_body w' = [Json doc] \<longrightarrow>
        (\<exists>address weather s1 s2.
           viaCepClient app (Values_Get (URL_Query u) ''cep'') s = (Inr address, s1)
           \<and> weatherApiClient app (ViaCepResponse.City address) s1 = (Inr weather, s2)
           \<and> doc = JObject
               [(''city'', JString (coerce_utf8 (ViaCepResponse.City address))),
                (''temp_C'', JNumber (CurrentWeather.TempC (Current weather))),
                (''temp_F'', JNumber (CurrentWeather.TempF (Current weather))),
                (''temp_K'', JNumber (f64_add (CurrentWeather.TempC (Current weather))
                                        (f64_round (27315 / 100))))]))
     \<and> (\<exists>k. f64_add (Finite (51 / 2)) (f64_round (27315 / 100)) = Finite k
            \<and> \<bar>k - 29865 / 100\<bar> \<le> 1 / 10 ^ 9)
     \<and> f64_add (Finite (51 / 2)) (f64_round (27315 / 100)) = f64_round (29865 / 100)"
proof (intro conjI impI)
  assume "is_PostalCode (Values_Get (URL_Query u) ''cep'')
        \<and> viaCepClient app (Values_Get (URL_Query u) ''cep'') s = (Inr address, s1)
        \<and> weatherApiClient app (ViaCepResponse.City address) s1 = (Inr weather, s2)
        \<and> CurrentWeather.TempC (Current weather) = Finite c
        \<and> CurrentWeather.TempF (Current weather) = Finite f
        \<and> f64_add (Finite c) (f64_round (27315 / 100)) = Finite k"
  then have valid: "is_PostalCode (Values_Get (URL_Query u) ''cep'')"
    and address: "viaCepClient app (Values_Get (URL_Query u) ''cep'') s = (Inr address, s1)"
    and weather: "weatherApiClient app (ViaCepResponse.City address) s1 = (Inr weather, s2)"
    and celsius: "CurrentWeather.TempC (Current weather) = Finite c"
    and fahrenheit: "CurrentWeather.TempF (Current weather) = Finite f"
    and kelvin: "f64_add (Finite c) (f64_round (27315 / 100)) = Finite k"
    by simp_all
  show "app2_handler app new_ResponseWriter r s =
        Inr (\<lparr>rw_header = [(''Content-Type'', [''application/json''])],
              rw_status = Some StatusOK,
              rw_body = [Json (JObject
                [(''city'', JString (coerce_utf8 (ViaCepResponse.City address))),
                 (''temp_C'', JNumber (Finite c)),
                 (''temp_F'', JNumber (Finite f)),
                 (''temp_K'', JNumber (f64_add (Finite c) (f64_round (27315 / 100))))])]\<rparr>,
             s2)"
    by (rule app2_handler_success [OF url valid address weather celsius fahrenheit kelvin])
next
  assume "app2_handler app new_ResponseWriter r s = Inr (w', s') \<and> rw_body w' = [Json doc]"
  then have run: "app2_handler app new_ResponseWriter r s = Inr (w', s')"
    and body: "rw_body w' = [Json doc]"
    by simp_all
  show "\<exists>address weather s1 s2.
           viaCepClient app (Values_Get (URL_Query u) ''cep'') s = (Inr address, s1)
           \<and> weatherApiClient app (ViaCepResponse.City address) s1 = (Inr weather, s2)
           \<and> doc = JObject
               [(''city'', JString (coerce_utf8 (ViaCepResponse.City address))),
                (''temp_C'', JNumber (CurrentWeather.TempC (Current weather))),
                (''temp_F'', JNumber (CurrentWeather.TempF (Current weather))),
                (''temp_K'', JNumber (f64_add (CurrentWeather.TempC (Current weather))
                                        (f64_round (27315 / 100))))]"
    by (rule app2_handler_document [OF url run body])
next
  have sum: "f64_add (Finite (51 / 2)) (f64_round (27315 / 100))
               = Finite (2626953181082419 / 8796093022208)"
    by code_simp
  have near: "\<bar>2626953181082419 / 8796093022208 - 29865 / 100 :: rat\<bar> \<le> 1 / 10 ^ 9"
    by simp
  from sum near show "\<exists>k. f64_add (Finite (51 / 2)) (f64_round (27315 / 100)) = Finite k
            \<and> \<bar>k - 29865 / 100\<bar> \<le> 1 / 10 ^ 9"
    by blast
next
  have sum: "f64_add (Finite (51 / 2)) (f64_round (27315 / 100))
               = Finite (2626953181082419 / 8796093022208)"
    by code_simp
  have nearest: "f64_round (29865 / 100) = Finite (2626953181082419 / 8796093022208)"
    by code_simp
  from sum nearest
  show "f64_add (Finite (51 / 2)) (f64_round (27315 / 100)) = f64_round (29865 / 100)"
    by simp
qed

theorem C5_kelvin_witness:
  "app2_handler
     \<lparr>viaCepClient = (\<lambda>cep s.
        (Inr \<lparr>ViaCepResponse.Cep = cep, Street = [], City = ''Sao Paulo'', State = ''SP'',
               Erro = False\<rparr>, Suc s)),
      weatherApiClient = (\<lambda>city s.
        (Inr \<lparr>Current = \<lparr>CurrentWeather.TempC = Finite (51 / 2),
                            TempF = Finite (2740862585720013 / 35184372088832)\<rparr>,
               Erro = False\<rparr>, Suc s)),
      logger = (\<lambda>line s. s)\<rparr>
     new_ResponseWriter
     \<lparr>Method = ''GET'',
      URL = Some \<lparr>Scheme = [], Host = [], Path = ''/get-weather-by-cep'',
                  RawQuery = ''cep=01001-000''\<rparr>,
      http_Request.Body = Inl (LibraryError ''EOF'')\<rparr> (0::nat)
   = Inr (\<lparr>rw_header = [(''Content-Type'', [''application/json''])],
           rw_status = Some StatusOK,
           rw_body = [Json (JObject
             [(''city'', JString ''Sao Paulo''),
              (''temp_C'', JNumber (Finite (51 / 2))),
              (''temp_F'', JNumber (Finite (2740862585720013 / 35184372088832))),
              (''temp_K'', JNumber (Finite (2626953181082419 / 8796093022208)))])]\<rparr>, 2)
   \<and> \<bar>2626953181082419 / 8796093022208 - 29865 / 100 :: rat\<bar> \<le> 1 / 10 ^ 9"
proof -
  let ?u = "\<lparr>Scheme = [], Host = [], Path = ''/get-weather-by-cep'', RawQuery = ''cep=01001-000''\<rparr>"
  let ?r = "\<lparr>Method = ''GET'', URL = Some ?u, http_Request.Body = Inl (LibraryError ''EOF'')\<rparr>"
  let ?address = "\<lparr>ViaCepResponse.Cep = ''01001-000'', Street = [], City = ''Sao Paulo'',
                   State = ''SP'', Erro = False\<rparr>"
  let ?weather = "\<lparr>Current = \<lparr>CurrentWeather.TempC = Finite (51 / 2),
                                  TempF = Finite (2740862585720013 / 35184372088832)\<rparr>,
                   Erro = False\<rparr>"
  let ?app = "\<lparr>viaCepClient = (\<lambda>cep s.
             (Inr \<lparr>ViaCepResponse.Cep = cep, Street = [], City = ''Sao Paulo'', State = ''SP'',
                    Erro = False\<rparr>, Suc s)),
           weatherApiClient = (\<lambda>city s. (Inr ?weather, Suc s)),
           logger = (\<lambda>line s :: nat. s)\<rparr>"
  have url: "URL ?r = Some ?u"
    by simp
  have cep: "Values_Get (URL_Query ?u) ''cep'' = ''01001-000''"
    by code_simp
  have valid: "is_PostalCode ''01001-000''"
    by code_simp
  have sum: "f64_add (Finite (51 / 2)) (f64_round (27315 / 100))
               = Finite (2626953181082419 / 8796093022208)"
    by code_simp
  have city: "coerce_utf8 ''Sao Paulo'' = ''Sao Paulo''"
    by code_simp
  have success: "is_PostalCode (Values_Get (URL_Query ?u) ''cep'')
        \<and> viaCepClient ?app (Values_Get (URL_Query ?u) ''cep'') 0 = (Inr ?address, 1)
        \<and> weatherApiClient ?app (ViaCepResponse.City ?address) 1 = (Inr ?weather, 2)
        \<and> CurrentWeather.TempC (Current ?weather) = Finite (51 / 2)
        \<and> CurrentWeather.TempF (Current ?weather) = Finite (2740862585720013 / 35184372088832)
        \<and> f64_add (Finite (51 / 2)) (f64_round (27315 / 100))
            = Finite (2626953181082419 / 8796093022208)"
    unfolding cep using valid sum by simp
  note inst = C5_kelvin [OF url, of ?app 0 ?address 1 ?weather 2 "51 / 2"
                 "2740862585720013 / 35184372088832" "2626953181082419 / 8796093022208"]
  have run: "app2_handler ?app new_ResponseWriter ?r 0 =
        Inr (\<lparr>rw_header = [(''Content-Type'', [''application/json''])],
              rw_status = Some StatusOK,
              rw_body = [Json (JObject
                [(''city'', JString ''Sao Paulo''),
                 (''temp_C'', JNumber (Finite (51 / 2))),
                 (''temp_F'', JNumber (Finite (2740862585720013 / 35184372088832))),
                 (''temp_K'', JNumber (Finite (2626953181082419 / 8796093022208)))])]\<rparr>, 2)"
    using mp [OF conjunct1 [OF inst] success] unfolding sum
    by (simp add: city del: coerce_utf8.simps)
  have near: "\<bar>2626953181082419 / 8796093022208 - 29865 / 100 :: rat\<bar> \<le> 1 / 10 ^ 9"
    by simp
  from run near show ?thesis
    by (intro conjI)
qed

subsection \<open>The Edge's handler (claims C7 and C8)\<close>

text \<open>
  The handler by cases, for a request that the validation lets pass and whose request to
  the Orchestrator could be built: the call fails, the Orchestrator answers with a status
  from 400 on, or it answers with a lower status and a body that decodes.
\<close>

lemma app1_handler_valid:
  assumes "Decode ''Request'' set_app1_Request \<lparr>app1_Request.Cep = []\<rparr> (http_Request.Body r) = Inr req"
      and "is_PostalCode (app1_Request.Cep req)"
  shows "app1_handler Getenv url_Parse app w r
           = app1_handler_process Getenv url_Parse app w (app1_Request.Cep req)
               (tracer_Start ''/weather-by-cep'')"
  using assms is_PostalCode_nonempty
  by (auto simp: app1_handler_def MatchString_cepRegex Let_def)

lemma process_transport_error:
  assumes "NewRequestWithContext url_Parse ''GET''
             (Getenv ''APP2_BASE_URL'' @ ''/get-weather-by-cep?cep='' @ cep) = Inr reqApp2"
      and "fst (app1_application.httpClient app reqApp2) = Inl err"
  shows "fst (app1_handler_process Getenv url_Parse app w cep sp)
           = http_Error w (Error err) StatusInternalServerError"
  using assms by (simp add: app1_handler_process_def)

lemma process_downstream_error:
  assumes "NewRequestWithContext url_Parse ''GET''
             (Getenv ''APP2_BASE_URL'' @ ''/get-weather-by-cep?cep='' @ cep) = Inr reqApp2"
      and "fst (app1_application.httpClient app reqApp2) = Inr response"
      and "StatusBadRequest \<le> StatusCode response"
  shows "fst (app1_handler_process Getenv url_Parse app w cep sp)
           = (if StatusCode response = StatusNotFound
              then http_Error w ''can not find zipcode'' StatusNotFound
              else http_Error w ''error on find weather in orchestrator service''
                     (StatusCode response))"
  using assms by (simp add: app1_handler_process_def)

lemma process_success:
  assumes "NewRequestWithContext url_Parse ''GET''
             (Getenv ''APP2_BASE_URL'' @ ''/get-weather-by-cep?cep='' @ cep) = Inr reqApp2"
      and "fst (app1_application.httpClient app reqApp2) = Inr response"
      and "StatusCode response < StatusBadRequest"
      and "Decode ''Response'' set_app1_Response app1_Response_zero
             (http_Response.Body response) = Inr resp"
  shows "fst (app1_handler_process Getenv url_Parse app w cep sp)
           = Encode (WriteHeader (Header_Set w ''Content-Type'' ''application/json'') StatusOK)
               (marshal_app1_Response resp)"
  using assms by (simp add: app1_handler_process_def)

text \<open>
  Claim C7. After the Edge has validated the postal code and built its request to the
  Orchestrator: an answer with status 404 becomes the Edge's own 404 with the line
  \<^verbatim>\<open>can not find zipcode\<close>; an answer with any other status from 400 on becomes a
  response with that same status and the fixed line
  \<^verbatim>\<open>error on find weather in orchestrator service\<close>; and a failure of the call itself
  (no answer: a transport error or a timeout, which the client reports as an error)
  becomes a response with status 500, whose body is the text of that error.
\<close>

theorem C7_edge_status_translation:
  assumes decoded: "Decode ''Request'' set_app1_Request \<lparr>app1_Request.Cep = []\<rparr>
                      (http_Request.Body r) = Inr req"
      and valid: "is_PostalCode (app1_Request.Cep req)"
      and built: "NewRequestWithContext url_Parse ''GET''
                    (Getenv ''APP2_BASE_URL'' @ ''/get-weather-by-cep?cep='' @ app1_Request.Cep req)
                  = Inr reqApp2"
  shows
    "(fst (app1_application.httpClient app reqApp2) = Inr response
        \<and> StatusCode response = StatusNotFound \<longrightarrow>
      rw_status (fst (app1_handler Getenv url_Parse app new_ResponseWriter r)) = Some StatusNotFound
      \<and> rw_body (fst (app1_handler Getenv url_Parse app new_ResponseWriter r))
          = [Text (''can not find zipcode'' @ [CHR 0x0A])])
     \<and> (fst (app1_application.httpClient app reqApp2) = Inr response
        \<and> StatusBadRequest \<le> StatusCode response \<and> StatusCode response \<noteq> StatusNotFound \<longrightarrow>
      rw_status (fst (app1_handler Getenv url_Parse app new_ResponseWriter r))
          = Some (StatusCode response)
      \<and> rw_body (fst (app1_handler Getenv url_Parse app new_ResponseWriter r))
          = [Text (''error on find weather in orchestrator service'' @ [CHR 0x0A])])
     \<and> (fst (app1_application.httpClient app reqApp2) = Inl err \<longrightarrow>
      rw_status (fst (app1_handler Getenv url_Parse app new_ResponseWriter r))
          = Some StatusInternalServerError
      \<and> rw_body (fst (app1_handler Getenv url_Parse app new_ResponseWriter r))
          = [Text (Error err @ [CHR 0x0A])])"
proof -
  let ?w = "fst (app1_handler Getenv url_Parse app new_ResponseWriter r)"
  have run: "?w = fst (app1_handler_process Getenv url_Parse app new_ResponseWriter
                         (app1_Request.Cep req) (tracer_Start ''/weather-by-cep''))"
    by (simp add: app1_handler_valid [OF decoded valid])
  have not_found: "rw_status ?w = Some StatusNotFound
                   \<and> rw_body ?w = [Text (''can not find zipcode'' @ [CHR 0x0A])]"
    if "fst (app1_application.httpClient app reqApp2) = Inr response"
       "StatusCode response = StatusNotFound"
    using process_downstream_error [where Getenv = Getenv, OF built that(1)] that(2) run
    by (simp add: http_Error_fresh)
  have upstream: "rw_status ?w = Some (StatusCode response)
      \<and> rw_body ?w = [Text (''error on find weather in orchestrator service'' @ [CHR 0x0A])]"
    if "fst (app1_application.httpClient app reqApp2) = Inr response"
       "StatusBadRequest \<le> StatusCode response" "StatusCode response \<noteq> StatusNotFound"
    using process_downstream_error [where Getenv = Getenv, OF built that(1) that(2)] that(3) run
    by (simp add: http_Error_fresh)
  have transport: "rw_status ?w = Some StatusInternalServerError
                   \<and> rw_body ?w = [Text (Error err @ [CHR 0x0A])]"
    if "fst (app1_application.httpClient app reqApp2) = Inl err"
    using process_transport_error [where Getenv = Getenv, OF built that] run
    by (simp add: http_Error_fresh)
  from not_found upstream transport show ?thesis
    by blast
qed

theorem C7_edge_status_translation_witness:
  "rw_status (fst (app1_handler (\<lambda>name. ''http://app2:8080'')
        (\<lambda>url. Inr \<lparr>Scheme = ''http'', Host = ''app2:8080'', Path = ''/get-weather-by-cep'',
                      RawQuery = ''cep=99999-999''\<rparr>)
        \<lparr>app1_application.httpClient =
           (\<lambda>req. (Inr \<lparr>StatusCode = StatusNotFound,
                          http_Response.Body = Inl (LibraryError ''invalid character'')\<rparr>, []))\<rparr>
        new_ResponseWriter
        \<lparr>Method = ''POST'', URL = None,
         http_Request.Body = Inr (JObject [(''cep'', JString ''99999-999'')])\<rparr>))
     = Some StatusNotFound
   \<and> rw_status (fst (app1_handler (\<lambda>name. ''http://app2:8080'')
        (\<lambda>url. Inr \<lparr>Scheme = ''http'', Host = ''app2:8080'', Path = ''/get-weather-by-cep'',
                      RawQuery = ''cep=99999-999''\<rparr>)
        \<lparr>app1_application.httpClient =
           (\<lambda>req. (Inr \<lparr>StatusCode = 503,
                          http_Response.Body = Inl (LibraryError ''invalid character'')\<rparr>, []))\<rparr>
        new_ResponseWriter
        \<lparr>Method = ''POST'', URL = None,
         http_Request.Body = Inr (JObject [(''cep'', JString ''99999-999'')])\<rparr>))
     = Some 503
   \<and> rw_status (fst (app1_handler (\<lambda>name. ''http://app2:8080'')
        (\<lambda>url. Inr \<lparr>Scheme = ''http'', Host = ''app2:8080'', Path = ''/get-weather-by-cep'',
                      RawQuery = ''cep=99999-999''\<rparr>)
        \<lparr>app1_application.httpClient = (\<lambda>req. (Inl (LibraryError ''connection refused''), []))\<rparr>
        new_ResponseWriter
        \<lparr>Method = ''POST'', URL = None,
         http_Request.Body = Inr (JObject [(''cep'', JString ''99999-999'')])\<rparr>))
     = Some StatusInternalServerError"
proof -
  let ?Getenv = "\<lambda>name :: string. ''http://app2:8080''"
  let ?u = "\<lparr>Scheme = ''http'', Host = ''app2:8080'', Path = ''/get-weather-by-cep'',
             RawQuery = ''cep=99999-999''\<rparr>"
  let ?parse = "\<lambda>url :: string. Inr ?u :: error + URL"
  let ?r = "\<lparr>Method = ''POST'', URL = None,
             http_Request.Body = Inr (JObject [(''cep'', JString ''99999-999'')])\<rparr>"
  let ?req = "\<lparr>app1_Request.Cep = ''99999-999''\<rparr>"
  let ?reqApp2 = "\<lparr>Method = ''GET'', URL = Some ?u, http_Request.Body = Inl (LibraryError ''EOF'')\<rparr>"
  let ?resp404 = "\<lparr>StatusCode = StatusNotFound,
                   http_Response.Body = Inl (LibraryError ''invalid character'')\<rparr>"
  let ?resp503 = "\<lparr>StatusCode = 503,
                   http_Response.Body = Inl (LibraryError ''invalid character'')\<rparr>"
  let ?err = "LibraryError ''connection refused''"
  have decoded: "Decode ''Request'' set_app1_Request \<lparr>app1_Request.Cep = []\<rparr>
                   (http_Request.Body ?r) = Inr ?req"
    by code_simp
  have valid: "is_PostalCode (app1_Request.Cep ?req)"
    by code_simp
  have built: "NewRequestWithContext ?parse ''GET''
                 (?Getenv ''APP2_BASE_URL'' @ ''/get-weather-by-cep?cep='' @ app1_Request.Cep ?req)
               = Inr ?reqApp2"
    by (simp add: NewRequestWithContext_def)
  note inst = C7_edge_status_translation [where Getenv = ?Getenv, OF decoded valid built]
  have not_found:
    "fst (app1_application.httpClient \<lparr>app1_application.httpClient = (\<lambda>req. (Inr ?resp404, []))\<rparr> ?reqApp2)
       = Inr ?resp404 \<and> StatusCode ?resp404 = StatusNotFound"
    by simp
  have unavailable:
    "fst (app1_application.httpClient \<lparr>app1_application.httpClient = (\<lambda>req. (Inr ?resp503, []))\<rparr> ?reqApp2)
       = Inr ?resp503 \<and> StatusBadRequest \<le> StatusCode ?resp503
     \<and> StatusCode ?resp503 \<noteq> StatusNotFound"
    by simp
  have refused:
    "fst (app1_application.httpClient \<lparr>app1_application.httpClient = (\<lambda>req. (Inl ?err, []))\<rparr> ?reqApp2)
       = Inl ?err"
    by simp
  have a: "rw_status (fst (app1_handler ?Getenv ?parse
              \<lparr>app1_application.httpClient = (\<lambda>req. (Inr ?resp404, []))\<rparr> new_ResponseWriter ?r))
           = Some StatusNotFound"
    using mp [OF conjunct1 [OF inst] not_found] by (rule conjunct1)
  have b: "rw_status (fst (app1_handler ?Getenv ?parse
              \<lparr>app1_application.httpClient = (\<lambda>req. (Inr ?resp503, []))\<rparr> new_ResponseWriter ?r))
           = Some 503"
    using mp [OF conjunct1 [OF conjunct2 [OF inst]] unavailable] by simp
  have c: "rw_status (fst (app1_handler ?Getenv ?parse
              \<lparr>app1_application.httpClient = (\<lambda>req. (Inl ?err, []))\<rparr> new_ResponseWriter ?r))
           = Some StatusInternalServerError"
    using mp [OF conjunct2 [OF conjunct2 [OF inst]] refused] by (rule conjunct1)
  from a b c show ?thesis
    by (intro conjI)
qed

text \<open>
  The Edge's \<^verbatim>\<open>Response\<close> and the Orchestrator's \<^verbatim>\<open>response\<close> have the same four
  fields under the same four names, so a document that the Orchestrator marshals decodes
  into the Edge's struct without loss, and marshals again to the same document (its
  string is well-formed UTF-8 already).
\<close>

lemma encode_float64_Finite:
  "encode_float64 x = Inr j \<Longrightarrow> \<exists>q. x = Finite q \<and> j = JNumber (Finite q)"
  by (cases x) auto

lemma foldName_city: "foldName ''city'' = ''CITY''"
  by code_simp

lemma foldName_temp_C: "foldName ''temp_C'' = ''TEMP_C''"
  by code_simp

lemma foldName_temp_F: "foldName ''temp_F'' = ''TEMP_F''"
  by code_simp

lemma foldName_temp_K: "foldName ''temp_K'' = ''TEMP_K''"
  by code_simp

lemmas foldName_tags = foldName_city foldName_temp_C foldName_temp_F foldName_temp_K

lemma set_app1_Response_tags:
  "set_app1_Response ''city'' (JString c) x = (None, x\<lparr>app1_Response.City := coerce_utf8 c\<rparr>)"
  "set_app1_Response ''temp_C'' (JNumber (Finite q)) x = (None, x\<lparr>app1_Response.TempC := Finite q\<rparr>)"
  "set_app1_Response ''temp_F'' (JNumber (Finite q)) x = (None, x\<lparr>app1_Response.TempF := Finite q\<rparr>)"
  "set_app1_Response ''temp_K'' (JNumber (Finite q)) x = (None, x\<lparr>app1_Response.TempK := Finite q\<rparr>)"
  by (simp_all add: set_app1_Response_def foldName_tags Let_def del: foldName.simps)

lemma roundtrip_app2_app1:
  assumes "marshal_app2_response r2 = Inr doc"
  shows "\<exists>r1. Decode ''Response'' set_app1_Response app1_Response_zero (Inr doc) = Inr r1
              \<and> marshal_app1_Response r1 = Inr doc
              \<and> app1_Response.City r1 = coerce_utf8 (app2_response.City r2)
              \<and> app1_Response.TempC r1 = app2_response.TempC r2
              \<and> app1_Response.TempF r1 = app2_response.TempF r2
              \<and> app1_Response.TempK r1 = app2_response.TempK r2"
proof -
  from assms obtain c f k where
    floats: "app2_response.TempC r2 = Finite c" "app2_response.TempF r2 = Finite f"
            "app2_response.TempK r2 = Finite k"
    and doc: "doc = JObject [(''city'', JString (coerce_utf8 (app2_response.City r2))),
                             (''temp_C'', JNumber (Finite c)),
                             (''temp_F'', JNumber (Finite f)),
                             (''temp_K'', JNumber (Finite k))]"
    by (auto simp: marshal_app2_response_def split: sum.splits dest!: encode_float64_Finite)
  let ?r1 = "\<lparr>app1_Response.City = coerce_utf8 (app2_response.City r2), TempC = Finite c,
             TempF = Finite f, TempK = Finite k\<rparr>"
  have "Decode ''Response'' set_app1_Response app1_Response_zero (Inr doc) = Inr ?r1"
    by (simp add: Decode_def doc set_app1_Response_tags app1_Response_zero_def coerce_utf8_idem)
  moreover have "marshal_app1_Response ?r1 = Inr doc"
    by (simp add: marshal_app1_Response_def doc coerce_utf8_idem)
  ultimately show ?thesis
    using floats by auto
qed

text \<open>
  Claim C8. When the Orchestrator answers the Edge with a success status (one below 400)
  and its body is the document of an Orchestrator \<^verbatim>\<open>response\<close> (any value of the
  struct that can be marshalled), the Edge answers with status 200 and with that same
  document as its body.
\<close>

theorem C8_edge_reemits_body:
  assumes decoded: "Decode ''Request'' set_app1_Request \<lparr>app1_Request.Cep = []\<rparr>
                      (http_Request.Body r) = Inr req"
      and valid: "is_PostalCode (app1_Request.Cep req)"
      and built: "NewRequestWithContext url_Parse ''GET''
                    (Getenv ''APP2_BASE_URL'' @ ''/get-weather-by-cep?cep='' @ app1_Request.Cep req)
                  = Inr reqApp2"
      and answered: "fst (app1_application.httpClient app reqApp2) = Inr response"
      and success: "StatusCode response < StatusBadRequest"
      and orchestrator: "marshal_app2_response r2 = Inr doc"
      and body: "http_Response.Body response = Inr doc"
  shows "rw_body (fst (app1_handler Getenv url_Parse app new_ResponseWriter r)) = [Json doc]
         \<and> rw_status (fst (app1_handler Getenv url_Parse app new_ResponseWriter r)) = Some StatusOK"
proof -
  from roundtrip_app2_app1 [OF orchestrator] body obtain r1 where
    dec: "Decode ''Response'' set_app1_Response app1_Response_zero
            (http_Response.Body response) = Inr r1"
    and enc: "marshal_app1_Response r1 = Inr doc"
    by auto
  have "fst (app1_handler Getenv url_Parse app new_ResponseWriter r)
          = Encode (WriteHeader (Header_Set new_ResponseWriter ''Content-Type'' ''application/json'')
                      StatusOK) (Inr doc)"
    using process_success [where Getenv = Getenv, OF built answered success dec] enc
    by (simp add: app1_handler_valid [OF decoded valid])
  then show ?thesis
    by (simp add: Encode_def Write_def WriteHeader_def Header_Set_def new_ResponseWriter_def)
qed

theorem C8_edge_reemits_body_witness:
  "rw_body (fst (app1_handler (\<lambda>name. ''http://app2:8080'')
        (\<lambda>url. Inr \<lparr>Scheme = ''http'', Host = ''app2:8080'', Path = ''/get-weather-by-cep'',
                      RawQuery = ''cep=01001-000''\<rparr>)
        \<lparr>app1_application.httpClient =
           (\<lambda>req. (Inr \<lparr>StatusCode = StatusOK,
                          http_Response.Body = Inr (JObject
            [(''city'', JString ''Sao Paulo''),
             (''temp_C'', JNumber (Finite (51 / 2))),
             (''temp_F'', JNumber (Finite (2740862585720013 / 35184372088832))),
             (''temp_K'', JNumber (Finite (2626953181082419 / 8796093022208)))])\<rparr>, []))\<rparr>
        new_ResponseWriter
        \<lparr>Method = ''POST'', URL = None,
         http_Request.Body = Inr (JObject [(''cep'', JString ''01001-000'')])\<rparr>))
     = [Json (JObject
            [(''city'', JString ''Sao Paulo''),
             (''temp_C'', JNumber (Finite (51 / 2))),
             (''temp_F'', JNumber (Finite (2740862585720013 / 35184372088832))),
             (''temp_K'', JNumber (Finite (2626953181082419 / 8796093022208)))])]
   \<and> rw_status (fst (app1_handler (\<lambda>name. ''http://app2:8080'')
        (\<lambda>url. Inr \<lparr>Scheme = ''http'', Host = ''app2:8080'', Path = ''/get-weather-by-cep'',
                      RawQuery = ''cep=01001-000''\<rparr>)
        \<lparr>app1_application.httpClient =
           (\<lambda>req. (Inr \<lparr>StatusCode = StatusOK,
                          http_Response.Body = Inr (JObject
            [(''city'', JString ''Sao Paulo''),
             (''temp_C'', JNumber (Finite (51 / 2))),
             (''temp_F'', JNumber (Finite (2740862585720013 / 35184372088832))),
             (''temp_K'', JNumber (Finite (2626953181082419 / 8796093022208)))])\<rparr>, []))\<rparr>
        new_ResponseWriter
        \<lparr>Method = ''POST'', URL = None,
         http_Request.Body = Inr (JObject [(''cep'', JString ''01001-000'')])\<rparr>))
     = Some StatusOK"
proof -
  let ?Getenv = "\<lambda>name :: string. ''http://app2:8080''"
  let ?u = "\<lparr>Scheme = ''http'', Host = ''app2:8080'', Path = ''/get-weather-by-cep'',
             RawQuery = ''cep=01001-000''\<rparr>"
  let ?parse = "\<lambda>url :: string. Inr ?u :: error + URL"
  let ?r = "\<lparr>Method = ''POST'', URL = None,
             http_Request.Body = Inr (JObject [(''cep'', JString ''01001-000'')])\<rparr>"
  let ?req = "\<lparr>app1_Request.Cep = ''01001-000''\<rparr>"
  let ?reqApp2 = "\<lparr>Method = ''GET'', URL = Some ?u, http_Request.Body = Inl (LibraryError ''EOF'')\<rparr>"
  let ?doc = "JObject
            [(''city'', JString ''Sao Paulo''),
             (''temp_C'', JNumber (Finite (51 / 2))),
             (''temp_F'', JNumber (Finite (2740862585720013 / 35184372088832))),
             (''temp_K'', JNumber (Finite (2626953181082419 / 8796093022208)))]"
  let ?response = "\<lparr>StatusCode = StatusOK, http_Response.Body = Inr ?doc\<rparr>"
  let ?app = "\<lparr>app1_application.httpClient = (\<lambda>req. (Inr ?response, []))\<rparr>"
  let ?r2 = "\<lparr>app2_response.City = ''Sao Paulo'', TempC = Finite (51 / 2),
              TempF = Finite (2740862585720013 / 35184372088832),
              TempK = Finite (2626953181082419 / 8796093022208)\<rparr>"
  have decoded: "Decode ''Request'' set_app1_Request \<lparr>app1_Request.Cep = []\<rparr>
                   (http_Request.Body ?r) = Inr ?req"
    by code_simp
  have valid: "is_PostalCode (app1_Request.Cep ?req)"
    by code_simp
  have built: "NewRequestWithContext ?parse ''GET''
                 (?Getenv ''APP2_BASE_URL'' @ ''/get-weather-by-cep?cep='' @ app1_Request.Cep ?req)
               = Inr ?reqApp2"
    by (simp add: NewRequestWithContext_def)
  have answered: "fst (app1_application.httpClient ?app ?reqApp2) = Inr ?response"
    by simp
  have success: "StatusCode ?response < StatusBadRequest"
    by simp
  have orchestrator: "marshal_app2_response ?r2 = Inr ?doc"
    by code_simp
  have body: "http_Response.Body ?response = Inr ?doc"
    by simp
  show ?thesis
    by (rule C8_edge_reemits_body [where Getenv = ?Getenv,
          OF decoded valid built answered success orchestrator body])
qed

subsection \<open>Query strings: parsing what was encoded\<close>

text \<open>
  The keys of a parsed query are distinct, as the keys of a Go map are. Two such maps
  with the same entries encode to the same text. Unescaping an escaped text gives the
  text back, an escaped text has none of the bytes \<^verbatim>\<open>&\<close>, \<^verbatim>\<open>;\<close>, \<^verbatim>\<open>=\<close>, and so
  parsing the encoding of a map gives every key its values back.
\<close>

lemma Values_Add_distinct:
  "distinct (map fst m) \<Longrightarrow> distinct (map fst (Values_Add m k v))"
  by (simp add: Values_Add_def distinct_update)

lemma parseQuery_pair_distinct:
  "distinct (map fst (fst st)) \<Longrightarrow> distinct (map fst (fst (parseQuery_pair st key)))"
  by (cases st) (auto simp: parseQuery_pair_def Values_Add_distinct split: sum.splits)

lemma parseQuery_distinct:
  "distinct (map fst (fst st)) \<Longrightarrow> distinct (map fst (fst (parseQuery st query)))"
proof (induction st query rule: parseQuery.induct)
  case (1 st query)
  show ?case
  proof (cases "query = []")
    case True
    with "1.prems" show ?thesis by simp
  next
    case False
    from "1.IH" [OF False parseQuery_pair_distinct [OF "1.prems"]] False show ?thesis
      by (subst parseQuery.simps) simp
  qed
qed

lemma URL_Query_distinct: "distinct (map fst (URL_Query u))"
  unfolding URL_Query_def ParseQuery_def by (rule parseQuery_distinct) simp

lemma Values_Encode_cong:
  assumes d1: "distinct (map fst v1)" and d2: "distinct (map fst v2)"
      and same: "map_of v1 = map_of v2"
  shows "Values_Encode v1 = Values_Encode v2"
proof -
  have "set (map fst v1) = set (map fst v2)"
    using same by (metis dom_map_of_conv_image_fst set_map)
  moreover have "distinct (sort (map fst v1))" "distinct (sort (map fst v2))"
    using d1 d2 by simp_all
  ultimately have "sort (map fst v1) = sort (map fst v2)"
    by (intro sorted_distinct_set_unique) simp_all
  with same show ?thesis
    by (simp add: Values_Encode_def)
qed

lemma Values_Set_masks:
  assumes d1: "distinct (map fst q1)" and d2: "distinct (map fst q2)"
      and others: "\<forall>k. k \<noteq> key \<longrightarrow> map_of q1 k = map_of q2 k"
  shows "Values_Encode (Values_Set q1 key msk) = Values_Encode (Values_Set q2 key msk)"
proof (rule Values_Encode_cong)
  show "distinct (map fst (Values_Set q1 key msk))"
    using d1 by (simp add: Values_Set_def distinct_update)
  show "distinct (map fst (Values_Set q2 key msk))"
    using d2 by (simp add: Values_Set_def distinct_update)
  show "map_of (Values_Set q1 key msk) = map_of (Values_Set q2 key msk)"
    using others by (auto simp: Values_Set_def update_conv')
qed

lemma hex_digits:
  "list_all (\<lambda>n. ishex (upperhex n) \<and> unhex (upperhex n) = n
       \<and> upperhex n \<notin> set ''&;='') [0..<16]"
  by code_simp

lemma hex_digit:
  assumes "n < 16"
  shows "ishex (upperhex n)" and "unhex (upperhex n) = n" and "upperhex n \<notin> set ''&;=''"
proof -
  from assms have "n \<in> set [0..<16]"
    by simp
  with hex_digits have "ishex (upperhex n) \<and> unhex (upperhex n) = n \<and> upperhex n \<notin> set ''&;=''"
    unfolding list_all_iff by blast
  then show "ishex (upperhex n)" and "unhex (upperhex n) = n" and "upperhex n \<notin> set ''&;=''"
    by simp_all
qed

lemma of_char_less_256: "of_char c < (256::nat)"
proof -
  have "of_char c mod 256 = (of_char c :: nat)"
    by (rule of_char_mod_256)
  then show ?thesis
    by (metis mod_less_divisor zero_less_numeral)
qed

lemma char_halves:
  "of_char c div 16 < (16::nat)" "of_char c mod 16 < (16::nat)"
  "char_of (of_char c div 16 * 16 + of_char c mod 16 :: nat) = c"
  using of_char_less_256 [of c] by (simp_all add: less_mult_imp_div_less)

lemma shouldEscape_query:
  "shouldEscape c encodeQueryComponent = (\<not> (is_alnum c \<or> c \<in> set ''-_.~''))"
  by (simp add: shouldEscape_def)

lemma escape_byte_query:
  "escape_byte encodeQueryComponent c =
     (if c = CHR '' '' then ''+''
      else if shouldEscape c encodeQueryComponent
        then [CHR ''%'', upperhex (of_char c div 16), upperhex (of_char c mod 16)]
      else [c])"
  by (simp add: escape_byte_def shouldEscape_query is_alnum_def is_digit_def between_def
        less_eq_char_def)

lemma reserved_shouldEscape:
  "c \<in> set ''&;=%+'' \<Longrightarrow> shouldEscape c encodeQueryComponent"
  by (auto simp: shouldEscape_query is_alnum_def is_digit_def between_def less_eq_char_def)

lemma escape_byte_safe: "x \<in> set (escape_byte encodeQueryComponent c) \<Longrightarrow> x \<notin> set ''&;=''"
proof -
  assume x: "x \<in> set (escape_byte encodeQueryComponent c)"
  show ?thesis
  proof (cases "c = CHR '' ''")
    case True
    with x show ?thesis by (simp add: escape_byte_query)
  next
    case space: False
    show ?thesis
    proof (cases "shouldEscape c encodeQueryComponent")
      case True
      with space x have "x = CHR ''%'' \<or> x = upperhex (of_char c div 16)
                         \<or> x = upperhex (of_char c mod 16)"
        by (simp add: escape_byte_query)
      with hex_digit(3) [OF char_halves(1)] hex_digit(3) [OF char_halves(2)] show ?thesis
        by auto
    next
      case False
      with space x have "x = c"
        by (simp add: escape_byte_query)
      with False reserved_shouldEscape [of c] show ?thesis
        by auto
    qed
  qed
qed

lemma QueryEscape_safe: "x \<in> set (QueryEscape s) \<Longrightarrow> x \<notin> set ''&;=''"
  unfolding QueryEscape_def escape_def using escape_byte_safe by auto

lemma QueryUnescape_escape_byte:
  "QueryUnescape (escape_byte encodeQueryComponent c @ rest) =
     (case QueryUnescape rest of Inl err \<Rightarrow> Inl err | Inr t \<Rightarrow> Inr (c # t))"
proof (cases "c = CHR '' ''")
  case True
  then show ?thesis by (simp add: escape_byte_query split: sum.splits)
next
  case space: False
  show ?thesis
  proof (cases "shouldEscape c encodeQueryComponent")
    case True
    with space show ?thesis
      by (simp add: escape_byte_query escaped_def unescaped_byte_def
            hex_digit(1,2) [OF char_halves(1)] hex_digit(1,2) [OF char_halves(2)] char_halves(3)
          split: sum.splits)
  next
    case False
    with reserved_shouldEscape [of c] have "c \<noteq> CHR ''%''" "c \<noteq> CHR ''+''"
      by auto
    with space False show ?thesis
      by (simp add: escape_byte_query split: sum.splits)
  qed
qed

lemma QueryUnescape_QueryEscape: "QueryUnescape (QueryEscape s) = Inr s"
  by (induction s) (simp_all add: QueryEscape_def escape_def QueryUnescape_escape_byte
       del: QueryUnescape.simps(2))

lemma Cut_found: "sep \<notin> set a \<Longrightarrow> Cut (a @ sep # b) sep = (a, b)"
  by (induction a) (auto simp: Cut_def)

lemma Cut_absent: "sep \<notin> set a \<Longrightarrow> Cut a sep = (a, [])"
  by (induction a) (auto simp: Cut_def)

lemma parseQuery_pair_piece:
  "parseQuery_pair (m, err) (QueryEscape k @ ''='' @ QueryEscape x) = (Values_Add m k x, err)"
proof -
  let ?piece = "QueryEscape k @ ''='' @ QueryEscape x"
  have no_semicolon: "CHR '';'' \<notin> set ?piece"
    using QueryEscape_safe [of "CHR '';''"] by auto
  have no_equals: "CHR ''='' \<notin> set (QueryEscape k)"
    using QueryEscape_safe [of "CHR ''=''"] by auto
  have cut: "Cut (QueryEscape k @ CHR ''='' # QueryEscape x) CHR ''=''
               = (QueryEscape k, QueryEscape x)"
    by (rule Cut_found [OF no_equals])
  show ?thesis
    using no_semicolon
    by (simp add: parseQuery_pair_def cut QueryUnescape_QueryEscape)
qed

lemma parseQuery_join_amp:
  "list_all (\<lambda>p. p \<noteq> [] \<and> CHR ''&'' \<notin> set p) ps \<Longrightarrow>
     parseQuery st (join_amp ps) = foldl parseQuery_pair st ps"
proof (induction ps arbitrary: st rule: join_amp.induct)
  case 1
  show ?case by simp
next
  case (2 p)
  then have "p \<noteq> []" and cut: "Cut p CHR ''&'' = (p, [])"
    by (simp_all add: Cut_absent)
  then show ?case
    by (subst parseQuery.simps) (simp add: cut)
next
  case (3 p q ps)
  then have "p \<noteq> []" and cut: "Cut (p @ CHR ''&'' # join_amp (q # ps)) CHR ''&'' = (p, join_amp (q # ps))"
    by (simp_all add: Cut_found)
  with 3 show ?case
    by (subst parseQuery.simps) (simp add: cut)
qed

lemma foldl_parseQuery_pair_pieces:
  "foldl parseQuery_pair (m, err) (map (\<lambda>(k, x). QueryEscape k @ ''='' @ QueryEscape x) kvs)
     = (foldl (\<lambda>m (k, x). Values_Add m k x) m kvs, err)"
proof (induction kvs arbitrary: m)
  case Nil
  show ?case by simp
next
  case (Cons kv kvs)
  obtain k x where kv: "kv = (k, x)"
    by (cases kv)
  have "parseQuery_pair (m, err) (QueryEscape k @ ''='' @ QueryEscape x) = (Values_Add m k x, err)"
    by (rule parseQuery_pair_piece)
  with Cons.IH [of "Values_Add m k x"] show ?case
    by (simp add: kv)
qed

lemma map_of_Values_Add:
  "map_of (Values_Add m k x) k' =
     (if k' = k then Some ((case map_of m k of None \<Rightarrow> [] | Some vs \<Rightarrow> vs) @ [x])
      else map_of m k')"
  by (simp add: Values_Add_def update_conv')

lemma map_of_foldl_Values_Add:
  "map_of (foldl (\<lambda>m (k, x). Values_Add m k x) m kvs) k' =
     (if map snd (filter (\<lambda>kv. fst kv = k') kvs) = [] then map_of m k'
      else Some ((case map_of m k' of None \<Rightarrow> [] | Some vs \<Rightarrow> vs)
                 @ map snd (filter (\<lambda>kv. fst kv = k') kvs)))"
proof (induction kvs arbitrary: m)
  case Nil
  show ?case by simp
next
  case (Cons kv kvs)
  obtain k x where kv: "kv = (k, x)"
    by (cases kv)
  have step: "foldl (\<lambda>m (k, x). Values_Add m k x) m (kv # kvs)
                = foldl (\<lambda>m (k, x). Values_Add m k x) (Values_Add m k x) kvs"
    by (simp add: kv)
  show ?case
    unfolding step Cons.IH [of "Values_Add m k x"]
    by (simp add: kv map_of_Values_Add split: option.splits)
qed

lemma pairs_of_key:
  "distinct ks \<Longrightarrow>
     map snd (filter (\<lambda>kv. fst kv = k') (concat (map (\<lambda>k. map (Pair k) (f k)) ks)))
       = (if k' \<in> set ks then f k' else [])"
proof (induction ks)
  case Nil
  show ?case by simp
next
  case (Cons k ks)
  have here: "map snd (filter (\<lambda>kv. fst kv = k') (map (Pair k) (f k)))
                = (if k = k' then f k else [])"
    by (induction "f k") (auto simp: filter_map comp_def map_idI)
  from Cons show ?case
    by (auto simp: here)
qed

lemma ParseQuery_Values_Encode:
  assumes "distinct (map fst v)"
  shows "map_of (fst (ParseQuery (Values_Encode v))) k =
           (case map_of v k of Some (x # xs) \<Rightarrow> Some (x # xs) | _ \<Rightarrow> None)"
proof -
  let ?vals = "\<lambda>k. case map_of v k of Some vs \<Rightarrow> vs | None \<Rightarrow> []"
  let ?ks = "sort (map fst v)"
  let ?kvs = "concat (map (\<lambda>k. map (Pair k) (?vals k)) ?ks)"
  let ?piece = "\<lambda>(k, x). QueryEscape k @ ''='' @ QueryEscape x"
  have pieces: "concat (map (\<lambda>k. map (\<lambda>x. QueryEscape k @ ''='' @ QueryEscape x) (?vals k)) ?ks)
                  = map ?piece ?kvs"
    by (simp add: map_concat comp_def)
  have ok: "list_all (\<lambda>p. p \<noteq> [] \<and> CHR ''&'' \<notin> set p) (map ?piece ?kvs)"
    using QueryEscape_safe [of "CHR ''&''"] by (auto simp: list_all_iff)
  have "ParseQuery (Values_Encode v)
          = (foldl (\<lambda>m (k, x). Values_Add m k x) [] ?kvs, None)"
    unfolding ParseQuery_def Values_Encode_def pieces parseQuery_join_amp [OF ok]
    by (rule foldl_parseQuery_pair_pieces)
  moreover have "distinct ?ks"
    using assms by simp
  moreover have "k \<in> set ?ks \<longleftrightarrow> map_of v k \<noteq> None"
    by (simp add: map_of_eq_None_iff)
  ultimately show ?thesis
    by (auto simp: map_of_foldl_Values_Add pairs_of_key split: option.splits list.splits)
qed

lemma Values_Get_ParseQuery_Encode:
  assumes "distinct (map fst v)"
  shows "Values_Get (fst (ParseQuery (Values_Encode v))) k = Values_Get v k"
  unfolding Values_Get_def ParseQuery_Values_Encode [OF assms]
  by (simp split: option.splits list.splits)

lemma Values_Get_Values_Set:
  "Values_Get (Values_Set q key val) k = (if k = key then val else Values_Get q k)"
  by (simp add: Values_Get_def Values_Set_def update_conv')

lemma redacted_query:
  "Values_Get (URL_Query (u\<lparr>RawQuery := Values_Encode (Values_Set (URL_Query u) ''key'' ''***'')\<rparr>)) k
     = (if k = ''key'' then ''***'' else Values_Get (URL_Query u) k)"
proof -
  have "distinct (map fst (Values_Set (URL_Query u) ''key'' ''***''))"
    using URL_Query_distinct [of u] by (simp add: Values_Set_def distinct_update)
  from Values_Get_ParseQuery_Encode [OF this] show ?thesis
    by (simp add: URL_Query_def Values_Get_Values_Set)
qed

subsection \<open>The credential of the weather API in the spans (claim C4)\<close>

text \<open>
  What \<^verbatim>\<open>redactingTransport.RoundTrip\<close> writes on the span of the request's context,
  for a request whose query has a credential \<^verbatim>\<open>key\<close> that is not empty: the
  attributes \<^verbatim>\<open>http.url\<close> and \<^verbatim>\<open>url.full\<close>, set to the text of the URL whose query is
  the request's query with the values of \<^verbatim>\<open>key\<close> replaced by the one value
  \<^verbatim>\<open>***\<close>. The span it leaves does not depend on the credential, and the request goes
  to \<open>base\<close> as it came.
\<close>


lemma RoundTrip_redacts:
  assumes "URL req = Some u" and "Values_Get (URL_Query u) ''key'' \<noteq> []"
  shows "RoundTrip t req sp =
           (base t req,
            SetAttributes sp
              [(HTTPURLKey, AString (URL_String
                  (u\<lparr>RawQuery := Values_Encode (Values_Set (URL_Query u) ''key'' ''***'')\<rparr>))),
               (URLFullKey, AString (URL_String
                  (u\<lparr>RawQuery := Values_Encode (Values_Set (URL_Query u) ''key'' ''***'')\<rparr>)))])"
  using assms by (simp add: RoundTrip_def Let_def)

lemma RoundTrip_key_independent:
  assumes url: "URL req = Some u"
      and key: "Values_Get (URL_Query u) ''key'' \<noteq> []"
  shows
    "fst (RoundTrip t req sp) = base t req
     \<and> attributes (snd (RoundTrip t req sp)) =
         AList.update URLFullKey
           (AString (URL_String
              (u\<lparr>RawQuery := Values_Encode (Values_Set (URL_Query u) ''key'' ''***'')\<rparr>)))
           (AList.update HTTPURLKey
              (AString (URL_String
                 (u\<lparr>RawQuery := Values_Encode (Values_Set (URL_Query u) ''key'' ''***'')\<rparr>)))
              (attributes sp))
     \<and> events (snd (RoundTrip t req sp)) = events sp
     \<and> (URL req' = Some u' \<and> Values_Get (URL_Query u') ''key'' \<noteq> []
          \<and> Scheme u' = Scheme u \<and> Host u' = Host u \<and> Path u' = Path u
          \<and> (\<forall>k. k \<noteq> ''key'' \<longrightarrow> map_of (URL_Query u') k = map_of (URL_Query u) k) \<longrightarrow>
        snd (RoundTrip t' req' sp) = snd (RoundTrip t req sp))"
proof (intro conjI impI)
  note here = RoundTrip_redacts [OF url key]
  show "fst (RoundTrip t req sp) = base t req"
    by (simp add: here)
  show "attributes (snd (RoundTrip t req sp)) =
         AList.update URLFullKey
           (AString (URL_String
              (u\<lparr>RawQuery := Values_Encode (Values_Set (URL_Query u) ''key'' ''***'')\<rparr>)))
           (AList.update HTTPURLKey
              (AString (URL_String
                 (u\<lparr>RawQuery := Values_Encode (Values_Set (URL_Query u) ''key'' ''***'')\<rparr>)))
              (attributes sp))"
    by (simp add: here SetAttributes_def)
  show "events (snd (RoundTrip t req sp)) = events sp"
    by (simp add: here SetAttributes_def)
  assume other: "URL req' = Some u' \<and> Values_Get (URL_Query u') ''key'' \<noteq> []
          \<and> Scheme u' = Scheme u \<and> Host u' = Host u \<and> Path u' = Path u
          \<and> (\<forall>k. k \<noteq> ''key'' \<longrightarrow> map_of (URL_Query u') k = map_of (URL_Query u) k)"
  then have there: "RoundTrip t' req' sp =
           (base t' req',
            SetAttributes sp
              [(HTTPURLKey, AString (URL_String
                  (u'\<lparr>RawQuery := Values_Encode (Values_Set (URL_Query u') ''key'' ''***'')\<rparr>))),
               (URLFullKey, AString (URL_String
                  (u'\<lparr>RawQuery := Values_Encode (Values_Set (URL_Query u') ''key'' ''***'')\<rparr>)))])"
    by (intro RoundTrip_redacts) simp_all
  have "Values_Encode (Values_Set (URL_Query u') ''key'' ''***'')
          = Values_Encode (Values_Set (URL_Query u) ''key'' ''***'')"
    using other by (intro Values_Set_masks URL_Query_distinct) simp
  with other have "URL_String
                  (u'\<lparr>RawQuery := Values_Encode (Values_Set (URL_Query u') ''key'' ''***'')\<rparr>)
     = URL_String (u\<lparr>RawQuery := Values_Encode (Values_Set (URL_Query u) ''key'' ''***'')\<rparr>)"
    by (simp add: URL_String_def EscapedPath_def)
  then show "snd (RoundTrip t' req' sp) = snd (RoundTrip t req sp)"
    by (simp add: here there)
qed

lemma FindTemperatureByCity_attributes:
  "attributes (fst (snd (FindTemperatureByCity url_Parse c city))) = [(''city.name'', AString city)]"
  by (simp add: FindTemperatureByCity_def SetAttributes_def tracer_Start_def RecordError_def
        AddEvent_def Let_def split: sum.splits prod.splits)

lemma weather_request_carries_key:
  "Values_Get
     (URL_Query (u\<lparr>RawQuery := Values_Encode (Values_Add (Values_Add [] ''key'' k) ''q'' city)\<rparr>))
     ''key'' = k"
proof -
  have "distinct (map fst (Values_Add (Values_Add [] ''key'' k) ''q'' city))"
    by (simp add: Values_Add_def)
  from Values_Get_ParseQuery_Encode [OF this] show ?thesis
    by (simp add: URL_Query_def Values_Get_def Values_Add_def)
qed

text \<open>
  In a client that \<^verbatim>\<open>NewClient\<close> built, the span that the redacting transport writes on
  is the one that \<^verbatim>\<open>otelhttp\<close> started: whatever \<^verbatim>\<open>otelhttp\<close> recorded there as the
  URL of the request, under the two keys, is replaced before the span ends.
\<close>

lemma otelhttp_RoundTrip_redacting:
  assumes url: "URL req = Some u"
      and key: "Values_Get (URL_Query u) ''key'' \<noteq> []"
  shows "otelhttp_RoundTrip sc (RoundTrip \<lparr>base = DefaultTransport\<rparr>) req =
           (let sp = SetAttributes
                       (SetAttributes (tracer_Start (''HTTP '' @ Method req))
                          (HTTPClientRequest sc req))
                       [(HTTPURLKey, AString (URL_String
                          (u\<lparr>RawQuery := Values_Encode
                                (Values_Set (URL_Query u) ''key'' ''***'')\<rparr>))),
                        (URLFullKey, AString (URL_String
                          (u\<lparr>RawQuery := Values_Encode
                                (Values_Set (URL_Query u) ''key'' ''***'')\<rparr>)))]
            in case DefaultTransport req of
                 Inl err \<Rightarrow> (Inl err, RecordError sp err)
               | Inr res \<Rightarrow> (Inr res, SetAttributes sp (HTTPClientResponse sc res)))"
  by (simp add: otelhttp_RoundTrip_def RoundTrip_redacts [OF url key] Let_def split: sum.splits)

text \<open>
  The error of a call that fails. \<^verbatim>\<open>Do\<close> returns the error of the transport inside a
  \<^verbatim>\<open>*url.Error\<close> that holds the text of the request's URL, and
  \<^verbatim>\<open>FindTemperatureByCity\<close> records the error that \<^verbatim>\<open>Do\<close> returns on its own span
  and prints it to the logger.
\<close>

lemma Client_Do_error:
  assumes "URL req = Some u" and "transport req = (Inl err, sp)"
  shows "Client_Do transport req
           = (Inl (url_Error (urlErrorOp (Method req)) (URL_String u) err), [sp])"
  using assms by (simp add: Client_Do_def)

lemma FindTemperatureByCity_request_error:
  assumes base: "url_Parse (weatherapi_Client.baseURL c) = Inr u"
      and req: "NewRequestWithContext url_Parse ''GET''
                  (URL_String (u\<lparr>Path := Path u @ ''/current.json'',
                     RawQuery := Values_Encode
                       (Values_Add (Values_Add [] ''key'' (apiKey c)) ''q'' city)\<rparr>)) = Inr req"
      and failed: "weatherapi_Client.httpClient c req = (Inl err, spans)"
  shows "FindTemperatureByCity url_Parse c city =
           (Inl weatherapi_ErrInternal,
            \<lparr>span_name = ''FindTemperatureByCity'',
              attributes = [(''city.name'', AString city)],
              events = [Exception err]\<rparr>,
            spans,
            [''Error requesting from WeatherAPI: '' @ Error err])"
  using assms
  by (simp add: FindTemperatureByCity_def SetAttributes_def tracer_Start_def RecordError_def
        Let_def)

text \<open>
  Claim C4. The claim says that no span of a call of the Weather Resolver, successful or
  failing, records the value of the API key. The code works towards it
  (\<^verbatim>\<open>redactingTransport\<close>, under the comment that the key must not be exposed in the
  URL), and reaches it for the URL that the transport's span records. It misses the error
  of a failing call: \<^verbatim>\<open>FindTemperatureByCity\<close> calls \<^verbatim>\<open>span.RecordError(err)\<close> with
  the error of \<^verbatim>\<open>c.httpClient.Do(req)\<close>, whose text holds the URL of the request as it
  was sent, and with it the key.

  The theorem computes two calls of a client that \<^verbatim>\<open>NewClient\<close> built with the key
  \<^verbatim>\<open>SECRET\<close>, for the city \<^verbatim>\<open>Sao Paulo\<close>; \<^verbatim>\<open>otelhttp\<close> records the method and the
  URL of a request and the status of a response. In the first call the network refuses the
  connection: the span \<^verbatim>\<open>FindTemperatureByCity\<close> ends with an exception event whose
  error has the text
  \<^verbatim>\<open>Get "https://api.weatherapi.com/v1/current.json?key=SECRET&q=Sao+Paulo": ...\<close>, and
  the same text goes to the logger, while the span of the transport has the URL with
  \<^verbatim>\<open>key=%2A%2A%2A\<close>. In the second call the network answers: no span holds the key.
\<close>

theorem C4_key_in_exception_event:
  "FindTemperatureByCity
     (\<lambda>s. if s = ''https://api.weatherapi.com/v1''
          then Inr \<lparr>Scheme = ''https'', Host = ''api.weatherapi.com'', Path = ''/v1'',
                     RawQuery = []\<rparr>
          else if s = ''https://api.weatherapi.com/v1/current.json?key=SECRET&q=Sao+Paulo''
          then Inr \<lparr>Scheme = ''https'', Host = ''api.weatherapi.com'',
                     Path = ''/v1/current.json'', RawQuery = ''key=SECRET&q=Sao+Paulo''\<rparr>
          else Inl (LibraryError ''parse''))
     (weatherapi_NewClient
        \<lparr>HTTPClientRequest = (\<lambda>r.
           [(''http.method'', AString (Method r)),
            (''http.url'',
             AString (case URL r of
                        None \<Rightarrow> []
                      | Some u \<Rightarrow> Scheme u @ ''://'' @ Host u @ Path u @ ''?'' @ RawQuery u))]),
         HTTPClientResponse = (\<lambda>res. [(''http.status_code'', AInt (StatusCode res))])\<rparr>
        (\<lambda>req. Inl (LibraryError ''dial tcp: connect: connection refused''))
        ''SECRET'')
     ''Sao Paulo''
   = (Inl weatherapi_ErrInternal,
      \<lparr>span_name = ''FindTemperatureByCity'',
        attributes = [(''city.name'', AString ''Sao Paulo'')],
        events = [Exception
          (url_Error ''Get''
             ''https://api.weatherapi.com/v1/current.json?key=SECRET&q=Sao+Paulo''
             (LibraryError ''dial tcp: connect: connection refused''))]\<rparr>,
      [\<lparr>span_name = ''HTTP GET'',
         attributes =
           [(''http.method'', AString ''GET''),
            (''http.url'',
             AString ''https://api.weatherapi.com/v1/current.json?key=%2A%2A%2A&q=Sao+Paulo''),
            (''url.full'',
             AString ''https://api.weatherapi.com/v1/current.json?key=%2A%2A%2A&q=Sao+Paulo'')],
         events = [Exception (LibraryError ''dial tcp: connect: connection refused'')]\<rparr>],
      [''Error requesting from WeatherAPI: Get '' @ [CHR 0x22]
       @ ''https://api.weatherapi.com/v1/current.json?key=SECRET&q=Sao+Paulo'' @ [CHR 0x22]
       @ '': dial tcp: connect: connection refused''])
   \<and> Error (url_Error ''Get''
               ''https://api.weatherapi.com/v1/current.json?key=SECRET&q=Sao+Paulo''
               (LibraryError ''dial tcp: connect: connection refused''))
     = ''Get '' @ [CHR 0x22]
       @ ''https://api.weatherapi.com/v1/current.json?key=SECRET&q=Sao+Paulo'' @ [CHR 0x22]
       @ '': dial tcp: connect: connection refused''
   \<and> FindTemperatureByCity
     (\<lambda>s. if s = ''https://api.weatherapi.com/v1''
          then Inr \<lparr>Scheme = ''https'', Host = ''api.weatherapi.com'', Path = ''/v1'',
                     RawQuery = []\<rparr>
          else if s = ''https://api.weatherapi.com/v1/current.json?key=SECRET&q=Sao+Paulo''
          then Inr \<lparr>Scheme = ''https'', Host = ''api.weatherapi.com'',
                     Path = ''/v1/current.json'', RawQuery = ''key=SECRET&q=Sao+Paulo''\<rparr>
          else Inl (LibraryError ''parse''))
     (weatherapi_NewClient
        \<lparr>HTTPClientRequest = (\<lambda>r.
           [(''http.method'', AString (Method r)),
            (''http.url'',
             AString (case URL r of
                        None \<Rightarrow> []
                      | Some u \<Rightarrow> Scheme u @ ''://'' @ Host u @ Path u @ ''?'' @ RawQuery u))]),
         HTTPClientResponse = (\<lambda>res. [(''http.status_code'', AInt (StatusCode res))])\<rparr>
        (\<lambda>req. Inr \<lparr>StatusCode = StatusOK, http_Response.Body =
           Inr (JObject [(''current'', JObject [(''temp_c'', JNumber (Finite (51 / 2)))])])\<rparr>)
        ''SECRET'')
     ''Sao Paulo''
   = (Inr \<lparr>Current = \<lparr>CurrentWeather.TempC = Finite (51 / 2), TempF = Finite 0\<rparr>,
            Erro = False\<rparr>,
      \<lparr>span_name = ''FindTemperatureByCity'',
        attributes = [(''city.name'', AString ''Sao Paulo'')],
        events = []\<rparr>,
      [\<lparr>span_name = ''HTTP GET'',
         attributes =
           [(''http.method'', AString ''GET''),
            (''http.url'',
             AString ''https://api.weatherapi.com/v1/current.json?key=%2A%2A%2A&q=Sao+Paulo''),
            (''url.full'',
             AString ''https://api.weatherapi.com/v1/current.json?key=%2A%2A%2A&q=Sao+Paulo''),
            (''http.status_code'', AInt StatusOK)],
         events = []\<rparr>],
      [])"
  by code_simp

end
